theory Spec2Isabelle
  imports Complex_Main "HOL-Library.AList"
begin

section \<open>The API layer of demucs: \<^verbatim>\<open>demucs/api.py\<close>\<close>

text \<open>
  The development embeds the class \<^verbatim>\<open>Separator\<close> and the function
  \<^verbatim>\<open>save_audio\<close> of \<^verbatim>\<open>demucs/api.py\<close>. An instance of the class is the
  dictionary of its attributes, exceptions are values of the type \<open>error\<close>, and the
  collaborators that live in other modules (the model lookup, the application strategy, the
  decode backends, the converters and encoders) are parameters of the functions that call them.
\<close>

subsection \<open>Sample values and tensors\<close>

text \<open>
  A sample is a 32-bit float in the source. Here a finite sample is a real number: rounding and
  overflow are left out. \<open>NonFin\<close> stands for the values that are not numbers of the
  waveform, NaN and the two infinities, which a division by zero produces. The sums, differences
  and products of the source yield such a value again when an operand is one, and so do its
  quotients: their divisors are a count of elements and the standard deviation, which is NaN
  whenever it is not finite.
\<close>

datatype fval = Fin real | NonFin

fun fadd :: "fval \<Rightarrow> fval \<Rightarrow> fval" where
  "fadd (Fin a) (Fin b) = Fin (a + b)"
| "fadd _ _ = NonFin"

fun fsub :: "fval \<Rightarrow> fval \<Rightarrow> fval" where
  "fsub (Fin a) (Fin b) = Fin (a - b)"
| "fsub _ _ = NonFin"

fun fmul :: "fval \<Rightarrow> fval \<Rightarrow> fval" where
  "fmul (Fin a) (Fin b) = Fin (a * b)"
| "fmul _ _ = NonFin"

fun fdiv :: "fval \<Rightarrow> fval \<Rightarrow> fval" where
  "fdiv (Fin a) (Fin b) = (if b = 0 then NonFin else Fin (a / b))"
| "fdiv _ _ = NonFin"

fun fsqrt :: "fval \<Rightarrow> fval" where
  "fsqrt (Fin a) = (if a < 0 then NonFin else Fin (sqrt a))"
| "fsqrt NonFin = NonFin"

definition fsum :: "fval list \<Rightarrow> fval" where
  "fsum xs = foldl fadd (Fin 0) xs"

text \<open>
  \<^verbatim>\<open>mean\<close> divides the sum by the number of elements and \<^verbatim>\<open>std\<close> is the
  square root of the unbiased variance: the squared deviations are divided by the number of
  elements less one, and by zero when there is at most one element.
\<close>

definition mean :: "fval list \<Rightarrow> fval" where
  "mean xs = fdiv (fsum xs) (Fin (real (length xs)))"

definition std :: "fval list \<Rightarrow> fval" where
  "std xs = (let m = mean xs in
     fsqrt (fdiv (fsum (map (\<lambda>x. fmul (fsub x m) (fsub x m)) xs))
                 (Fin (real (length xs - 1)))))"

text \<open>
  A tensor is its shape and its elements in row-major order; a tensor of the source always has
  as many elements as the product of its shape.
\<close>

datatype tensor = Tensor (shape: "nat list") (data: "fval list")

definition wellformed :: "tensor \<Rightarrow> bool" where
  "wellformed t = (length (data t) = prod_list (shape t))"

definition tmap :: "(fval \<Rightarrow> fval) \<Rightarrow> tensor \<Rightarrow> tensor" where
  "tmap f t = Tensor (shape t) (map f (data t))"

text \<open>\<^verbatim>\<open>t.mean()\<close> and \<^verbatim>\<open>t.std()\<close>: the statistics of all the elements.\<close>

definition tmean :: "tensor \<Rightarrow> fval" where
  "tmean t = mean (data t)"

definition tstd :: "tensor \<Rightarrow> fval" where
  "tstd t = std (data t)"

text \<open>
  \<^verbatim>\<open>t.mean(0)\<close>: the mean along the first dimension. For a waveform of shape
  \<open>[c, n]\<close> the result has shape \<open>[n]\<close> and its element \<open>j\<close> is the mean of the
  \<open>c\<close> channels at the sample frame \<open>j\<close>.
\<close>

definition mean0 :: "tensor \<Rightarrow> tensor" where
  "mean0 t = (case shape t of
      [] \<Rightarrow> t
    | d # rest \<Rightarrow>
        (let stride = prod_list rest in
         Tensor rest (map (\<lambda>j. mean (map (\<lambda>i. data t ! (i * stride + j)) [0..<d]))
                          [0..<stride])))"

text \<open>\<^verbatim>\<open>t[None]\<close>: a leading dimension of size one.\<close>

definition unsqueeze0 :: "tensor \<Rightarrow> tensor" where
  "unsqueeze0 t = Tensor (1 # shape t) (data t)"

subsection \<open>Values, exceptions and objects\<close>

record model =
  sources :: "string list"
  audio_channels :: nat
  samplerate :: nat

datatype pyval =
    PNone
  | PBool bool
  | PInt int
  | PFloat real
  | PStr string
  | PCallable nat
  | PDict "(string \<times> pyval) list"
  | PModel model

fun callable :: "pyval \<Rightarrow> bool" where
  "callable (PCallable f) = True"
| "callable _ = False"

datatype error =
    AttributeError string
  | IndexError
  | TypeError
  | ValueError string
  | LoadModelError string
  | LoadAudioError string
  | FileNotFoundError string
  | CalledProcessError string
  | RuntimeError "pyval list"
  | OtherError string

type_synonym obj = "string \<rightharpoonup> pyval"

definition getattr :: "obj \<Rightarrow> string \<Rightarrow> error + pyval" where
  "getattr self attr = (case self attr of None \<Rightarrow> Inl (AttributeError attr) | Some v \<Rightarrow> Inr v)"

definition bindE :: "error + 'a \<Rightarrow> ('a \<Rightarrow> error + 'b) \<Rightarrow> error + 'b" where
  "bindE r f = (case r of Inl e \<Rightarrow> Inl e | Inr x \<Rightarrow> f x)"

text \<open>\<^verbatim>\<open>t.shape[i]\<close>, \<^verbatim>\<open>t[0]\<close> and the iteration over a tensor.\<close>

definition shape_at :: "tensor \<Rightarrow> nat \<Rightarrow> error + nat" where
  "shape_at t i = (if i < length (shape t) then Inr (shape t ! i) else Inl IndexError)"

definition index0 :: "tensor \<Rightarrow> error + tensor" where
  "index0 t = (case shape t of
      [] \<Rightarrow> Inl IndexError
    | d # rest \<Rightarrow> if d = 0 then Inl IndexError
                  else Inr (Tensor rest (take (prod_list rest) (data t))))"

definition unbind :: "tensor \<Rightarrow> error + tensor list" where
  "unbind t = (case shape t of
      [] \<Rightarrow> Inl TypeError
    | d # rest \<Rightarrow>
        (let stride = prod_list rest in
         Inr (map (\<lambda>i. Tensor rest (take stride (drop (i * stride) (data t)))) [0..<d])))"

text \<open>
  \<^verbatim>\<open>dict(pairs)\<close>: a dictionary keeps its keys in the order of their first insertion,
  and a key inserted again keeps its place and takes the new value.
\<close>

definition dict_of :: "('k \<times> 'v) list \<Rightarrow> ('k \<times> 'v) list" where
  "dict_of ps = foldl (\<lambda>d (k, v). AList.update k v d) [] ps"

subsection \<open>The configuration of a \<^verbatim>\<open>Separator\<close>\<close>

definition set_attr :: "obj \<Rightarrow> string \<Rightarrow> pyval \<Rightarrow> obj" where
  "set_attr self attr v =
     (if v \<noteq> PNone then self(attr \<mapsto> v)
      else if self attr = None then self(attr \<mapsto> PNone)
      else self)"

record params =
  device :: pyval
  shifts :: pyval
  overlap :: pyval
  split :: pyval
  segment :: pyval
  jobs :: pyval
  progress :: pyval
  callback :: pyval
  callback_arg :: pyval

text \<open>A call of \<^verbatim>\<open>update_parameter\<close> that passes no argument.\<close>

definition no_params :: params where
  "no_params = \<lparr>device = PNone, shifts = PNone, overlap = PNone, split = PNone,
     segment = PNone, jobs = PNone, progress = PNone, callback = PNone,
     callback_arg = PNone\<rparr>"

definition update_parameter :: "obj \<Rightarrow> params \<Rightarrow> obj" where
  "update_parameter self p =
     (let self = set_attr self ''_device'' (device p);
          self = set_attr self ''_shifts'' (shifts p);
          self = set_attr self ''_overlap'' (overlap p);
          self = set_attr self ''_split'' (split p);
          self = set_attr self ''_segment'' (segment p);
          self = set_attr self ''_jobs'' (jobs p);
          self = set_attr self ''_progress'' (progress p);
          self = set_attr self ''_callback'' (if callable (callback p) then callback p else PNone);
          self = set_attr self ''_callback_arg'' (callback_arg p)
      in self)"

text \<open>
  \<^verbatim>\<open>get_model\<close> belongs to another module and is a parameter; its result \<open>None\<close>
  is the \<^verbatim>\<open>None\<close> of the source.
\<close>

definition load_model :: "(pyval \<Rightarrow> pyval \<Rightarrow> model option) \<Rightarrow> obj \<Rightarrow> error + obj" where
  "load_model get_model self =
     bindE (getattr self ''_name'') (\<lambda>name.
     bindE (getattr self ''_repo'') (\<lambda>repo.
       case get_model name repo of
         None \<Rightarrow> Inl (LoadModelError ''Failed to load model'')
       | Some m \<Rightarrow>
           Inr (self(''_model'' \<mapsto> PModel m,
                     ''_audio_channels'' \<mapsto> PInt (int (audio_channels m)),
                     ''_samplerate'' \<mapsto> PInt (int (samplerate m))))))"

text \<open>\<^verbatim>\<open>Separator.__init__\<close>, from the object that has no attribute yet.\<close>

definition init :: "(pyval \<Rightarrow> pyval \<Rightarrow> model option) \<Rightarrow> pyval \<Rightarrow> pyval \<Rightarrow> params \<Rightarrow> error + obj" where
  "init get_model name repo p =
     (let self = Map.empty(''_name'' \<mapsto> name, ''_repo'' \<mapsto> repo) in
      bindE (load_model get_model self) (\<lambda>self. Inr (update_parameter self p)))"

text \<open>The names that \<^verbatim>\<open>update_parameter\<close> writes.\<close>

definition config_fields :: "string list" where
  "config_fields = [''_device'', ''_shifts'', ''_overlap'', ''_split'', ''_segment'', ''_jobs'',
     ''_progress'', ''_callback'', ''_callback_arg'']"

text \<open>
  The calls of \<^verbatim>\<open>_set_attr\<close> that \<^verbatim>\<open>update_parameter\<close> makes, in
  their order: each field with the value it is offered, which is the argument itself and, for
  the callback, the argument when it is callable and \<^verbatim>\<open>None\<close> otherwise.
\<close>

definition assignments :: "params \<Rightarrow> (string \<times> pyval) list" where
  "assignments p = [(''_device'', device p), (''_shifts'', shifts p), (''_overlap'', overlap p),
     (''_split'', split p), (''_segment'', segment p), (''_jobs'', jobs p),
     (''_progress'', progress p),
     (''_callback'', if callable (callback p) then callback p else PNone),
     (''_callback_arg'', callback_arg p)]"

definition offered :: "params \<Rightarrow> string \<rightharpoonup> pyval" where
  "offered p = map_of (assignments p)"

text \<open>The arguments of a call, each under the field it is meant for, as the caller wrote them.\<close>

definition arguments :: "params \<Rightarrow> (string \<times> pyval) list" where
  "arguments p = [(''_device'', device p), (''_shifts'', shifts p), (''_overlap'', overlap p),
     (''_split'', split p), (''_segment'', segment p), (''_jobs'', jobs p),
     (''_progress'', progress p), (''_callback'', callback p),
     (''_callback_arg'', callback_arg p)]"

definition supplied :: "params \<Rightarrow> string \<rightharpoonup> pyval" where
  "supplied p = map_of (arguments p)"

subsection \<open>Separating a waveform\<close>

text \<open>
  Modelled from the spec: \<^verbatim>\<open>_replace_dict\<close> of \<^verbatim>\<open>demucs/apply.py\<close>, which
  is not among the sources at hand. The spec gives the callback context as an open key-value bag
  into which the progress data are merged, the progress keys winning on collision, and the
  configuration lets the bag be absent: the result is a copy of the bag, the empty one when it is
  absent, with the key set to the value. A value that is neither a bag nor
  \<^verbatim>\<open>None\<close> cannot take a key.
\<close>

definition replace_dict :: "pyval \<Rightarrow> string \<times> pyval \<Rightarrow> error + (string \<times> pyval) list" where
  "replace_dict d sub =
     (case d of
        PNone \<Rightarrow> Inr (AList.update (fst sub) (snd sub) [])
      | PDict kvs \<Rightarrow> Inr (AList.update (fst sub) (snd sub) kvs)
      | _ \<Rightarrow> Inl TypeError)"

text \<open>\<^verbatim>\<open>model.sources\<close>, of a value that may not be a model.\<close>

definition model_sources :: "pyval \<Rightarrow> error + string list" where
  "model_sources v = (case v of PModel m \<Rightarrow> Inr (sources m) | _ \<Rightarrow> Inl (AttributeError ''sources''))"

text \<open>
  The arguments of the call of \<^verbatim>\<open>apply_model\<close> in
  \<^verbatim>\<open>separate_tensor\<close>, evaluated from left to right before the call: the model, the
  waveform under a batch dimension, and the keyword arguments. These are the nine settings and
  are kept in a record of the settings, where \<open>jobs\<close> is the keyword
  \<^verbatim>\<open>num_workers\<close>.
\<close>

definition apply_arguments :: "obj \<Rightarrow> tensor \<Rightarrow> error + pyval \<times> tensor \<times> params" where
  "apply_arguments self wav =
     bindE (getattr self ''_model'') (\<lambda>model.
     bindE (getattr self ''_segment'') (\<lambda>segment.
     bindE (getattr self ''_shifts'') (\<lambda>shifts.
     bindE (getattr self ''_split'') (\<lambda>split.
     bindE (getattr self ''_overlap'') (\<lambda>overlap.
     bindE (getattr self ''_device'') (\<lambda>device.
     bindE (getattr self ''_jobs'') (\<lambda>jobs.
     bindE (getattr self ''_callback'') (\<lambda>callback.
     bindE (getattr self ''_callback_arg'') (\<lambda>callback_arg.
     bindE (shape_at wav 1) (\<lambda>audio_length.
     bindE (replace_dict callback_arg (''audio_length'', PInt (int audio_length))) (\<lambda>callback_arg.
     bindE (getattr self ''_progress'') (\<lambda>progress.
       Inr (model, unsqueeze0 wav,
            \<lparr>device = device, shifts = shifts, overlap = overlap, split = split,
             segment = segment, jobs = jobs, progress = progress, callback = callback,
             callback_arg = PDict callback_arg\<rparr>)))))))))))))"

text \<open>
  \<^verbatim>\<open>Separator.separate_tensor\<close>. \<^verbatim>\<open>apply_model\<close> belongs to another
  module and is a parameter. The name \<^verbatim>\<open>wav\<close> of the source is bound a second time
  by the normalization; here the argument is \<open>wav0\<close> and \<open>wav\<close> is the second binding,
  the one that the last line returns.
\<close>

definition separate_tensor ::
  "(pyval \<Rightarrow> tensor \<Rightarrow> params \<Rightarrow> tensor) \<Rightarrow> obj \<Rightarrow> tensor \<Rightarrow>
   error + tensor \<times> (string \<times> tensor) list" where
  "separate_tensor apply_model self wav0 =
     (let ref = mean0 wav0;
          wav = tmap (\<lambda>x. fdiv (fsub x (tmean ref)) (tstd ref)) wav0
      in bindE (apply_arguments self wav) (\<lambda>(model, mix, kwargs).
         let out = tmap (\<lambda>y. fadd (fmul y (tstd ref)) (tmean ref)) (apply_model model mix kwargs)
         in bindE (getattr self ''_model'') (\<lambda>model.
            bindE (model_sources model) (\<lambda>names.
            bindE (index0 out) (\<lambda>out0.
            bindE (unbind out0) (\<lambda>stems.
              Inr (wav, dict_of (zip names stems))))))))"

text \<open>
  An application strategy that separates nothing: for a batch of one mixture it returns, for
  every source of the model, the mixture it was given.
\<close>

definition identity_strategy :: "pyval \<Rightarrow> tensor \<Rightarrow> params \<Rightarrow> tensor" where
  "identity_strategy model mix kwargs =
     (case model of
        PModel m \<Rightarrow>
          Tensor (1 # length (sources m) # tl (shape mix))
                 (concat (replicate (length (sources m)) (data mix)))
      | _ \<Rightarrow> mix)"

text \<open>
  An object on which \<^verbatim>\<open>separate_tensor\<close> finds what it reads: the nine settings, a
  model, and a callback context that is a dictionary or \<^verbatim>\<open>None\<close>.
\<close>

definition ready :: "obj \<Rightarrow> bool" where
  "ready self =
     (list_all (\<lambda>a. self a \<noteq> None) config_fields
      \<and> (case self ''_model'' of Some (PModel m) \<Rightarrow> True | _ \<Rightarrow> False)
      \<and> (case self ''_callback_arg'' of
            Some PNone \<Rightarrow> True | Some (PDict d) \<Rightarrow> True | _ \<Rightarrow> False))"

text \<open>The callback context of an object as a dictionary: the empty one when it is absent.\<close>

definition context_of :: "obj \<Rightarrow> (string \<times> pyval) list" where
  "context_of self = (case self ''_callback_arg'' of Some (PDict d) \<Rightarrow> d | _ \<Rightarrow> [])"

text \<open>
  The output of an application strategy is batched and has one tensor per source of the model:
  its first dimension is not empty and its second is the number of sources.
\<close>

definition per_source :: "model \<Rightarrow> tensor \<Rightarrow> bool" where
  "per_source m out =
     (case shape out of
        b # k # rest \<Rightarrow> 0 < b \<and> k = length (sources m)
      | _ \<Rightarrow> False)"

text \<open>
  The statistics in the words of the spec, for a waveform of \<open>c\<close> channels and \<open>n\<close>
  sample frames whose samples are the reals \<open>xs\<close>: the channel-averaged signal, its mean
  over the whole input, and its standard deviation.
\<close>

definition ref_signal :: "nat \<Rightarrow> nat \<Rightarrow> real list \<Rightarrow> nat \<Rightarrow> real" where
  "ref_signal c n xs j = (\<Sum>i<c. xs ! (i * n + j)) / real c"

definition ref_mean :: "nat \<Rightarrow> nat \<Rightarrow> real list \<Rightarrow> real" where
  "ref_mean c n xs = (\<Sum>j<n. ref_signal c n xs j) / real n"

definition ref_std :: "nat \<Rightarrow> nat \<Rightarrow> real list \<Rightarrow> real" where
  "ref_std c n xs =
     sqrt ((\<Sum>j<n. (ref_signal c n xs j - ref_mean c n xs)\<^sup>2) / real (n - 1))"

subsection \<open>Loading an audio file\<close>

text \<open>\<^verbatim>\<open>sep.join(lines)\<close>.\<close>

fun join :: "string \<Rightarrow> string list \<Rightarrow> string" where
  "join sep [] = []"
| "join sep [x] = x"
| "join sep (x # y # ys) = x @ sep @ join sep (y # ys)"

text \<open>
  The text that \<^verbatim>\<open>str.format\<close> puts in the place of \<^verbatim>\<open>{}\<close>: a string
  as it is, an integer in decimal digits, \<^verbatim>\<open>None\<close> and the truth values by their
  names. The text of any other value is decided by the interpreter (the digits of a float, the
  address of an object) and is the parameter \<open>py_repr\<close>.
\<close>

definition digit_char :: "nat \<Rightarrow> char" where
  "digit_char d = ''0123456789'' ! (d mod 10)"

fun digits :: "nat \<Rightarrow> string" where
  "digits n = (if n < 10 then [digit_char n] else digits (n div 10) @ [digit_char (n mod 10)])"

declare digits.simps [simp del]

definition show_int :: "int \<Rightarrow> string" where
  "show_int i = (if i < 0 then CHR ''-'' # digits (nat (- i)) else digits (nat i))"

definition py_str :: "(pyval \<Rightarrow> string) \<Rightarrow> pyval \<Rightarrow> string" where
  "py_str py_repr v =
     (case v of
        PStr s \<Rightarrow> s
      | PInt i \<Rightarrow> show_int i
      | PNone \<Rightarrow> ''None''
      | PBool b \<Rightarrow> (if b then ''True'' else ''False'')
      | _ \<Rightarrow> py_repr v)"

definition load_error_line :: "(pyval \<Rightarrow> string) \<Rightarrow> string \<times> pyval \<Rightarrow> string" where
  "load_error_line py_repr = (\<lambda>(backend, err).
     ''When trying to load using '' @ backend @ '', got the following error: ''
       @ py_str py_repr err)"

text \<open>
  \<^verbatim>\<open>Separator._load_audio\<close>. The two decode backends and the converter belong to
  other modules and are parameters: \<open>audiofile_read\<close> is
  \<^verbatim>\<open>AudioFile(track).read\<close>, \<open>ta_load\<close> is \<^verbatim>\<open>torchaudio.load\<close>.
  A backend returns its result or the exception it raises; a \<^verbatim>\<open>RuntimeError\<close>
  comes with its tuple \<^verbatim>\<open>args\<close>, of which the handler records the first element,
  and raises \<^verbatim>\<open>IndexError\<close> when there is none. The exceptions that no
  \<^verbatim>\<open>except\<close> clause names leave the function as they are. The local variables
  \<^verbatim>\<open>errors\<close> and \<^verbatim>\<open>wav\<close> are passed along as a pair; the values of
  \<^verbatim>\<open>errors\<close> are the strings of the first handlers and the recorded argument of
  the third.
\<close>

definition load_audio ::
  "(pyval \<Rightarrow> string) \<Rightarrow> (string \<Rightarrow> pyval \<Rightarrow> pyval \<Rightarrow> error + tensor) \<Rightarrow>
   (string \<Rightarrow> error + tensor \<times> pyval) \<Rightarrow> (tensor \<Rightarrow> pyval \<Rightarrow> pyval \<Rightarrow> pyval \<Rightarrow> tensor) \<Rightarrow>
   obj \<Rightarrow> string \<Rightarrow> error + tensor" where
  "load_audio py_repr audiofile_read ta_load convert_audio self track =
     bindE (getattr self ''_samplerate'') (\<lambda>sr.
     bindE (getattr self ''_audio_channels'') (\<lambda>ch.
     bindE (case audiofile_read track sr ch of
              Inr w \<Rightarrow> Inr ([], Some w)
            | Inl (FileNotFoundError m) \<Rightarrow>
                Inr ([(''ffmpeg'', PStr ''FFmpeg is not installed.'')], None)
            | Inl (CalledProcessError m) \<Rightarrow>
                Inr ([(''ffmpeg'', PStr ''FFmpeg could not read the file.'')], None)
            | Inl e \<Rightarrow> Inl e) (\<lambda>(errors, wav).
     bindE (case wav of
              Some w \<Rightarrow> Inr (errors, wav)
            | None \<Rightarrow>
                (case ta_load track of
                   Inl (RuntimeError args) \<Rightarrow>
                     (case args of
                        [] \<Rightarrow> Inl IndexError
                      | arg # rest \<Rightarrow> Inr (AList.update ''torchaudio'' arg errors, None))
                 | Inl e \<Rightarrow> Inl e
                 | Inr (w, sr') \<Rightarrow> Inr (errors, Some (convert_audio w sr' sr ch))))
       (\<lambda>(errors, wav).
     case wav of
       None \<Rightarrow> Inl (LoadAudioError (join [CHR 0x0A] (map (load_error_line py_repr) errors)))
     | Some w \<Rightarrow> Inr w))))"

text \<open>
  Backends to evaluate the function on: a first backend that cannot read the file, with the
  message of its exception, a second one that raises \<^verbatim>\<open>RuntimeError\<close> with the
  given arguments, a converter that leaves the waveform as it is, and a text for the values
  whose text the interpreter decides.
\<close>

definition ffmpeg_fails :: "string \<Rightarrow> string \<Rightarrow> pyval \<Rightarrow> pyval \<Rightarrow> error + tensor" where
  "ffmpeg_fails msg track sr ch = Inl (CalledProcessError msg)"

definition torchaudio_fails :: "pyval list \<Rightarrow> string \<Rightarrow> error + tensor \<times> pyval" where
  "torchaudio_fails args track = Inl (RuntimeError args)"

definition convert_nothing :: "tensor \<Rightarrow> pyval \<Rightarrow> pyval \<Rightarrow> pyval \<Rightarrow> tensor" where
  "convert_nothing w sr' sr ch = w"

definition object_repr :: "pyval \<Rightarrow> string" where
  "object_repr v = ''<object>''"

subsection \<open>Saving a waveform\<close>

text \<open>
  \<^verbatim>\<open>Path(path).suffix\<close> of the standard library, for a POSIX path: the name is the
  last component that is neither empty nor a single dot, and the suffix starts at the last dot
  of the name, unless that dot is the first or the last character of the name.
\<close>

fun split_on :: "char \<Rightarrow> string \<Rightarrow> string list" where
  "split_on c [] = [] # []"
| "split_on c (x # xs) =
     (if x = c then [] # split_on c xs
      else (case split_on c xs of [] \<Rightarrow> [x] # [] | w # ws \<Rightarrow> (x # w) # ws))"

fun rfind :: "char \<Rightarrow> string \<Rightarrow> nat option" where
  "rfind c [] = None"
| "rfind c (x # xs) =
     (case rfind c xs of
        Some i \<Rightarrow> Some (Suc i)
      | None \<Rightarrow> if x = c then Some 0 else None)"

definition path_name :: "string \<Rightarrow> string" where
  "path_name path =
     (let parts = filter (\<lambda>s. s \<noteq> [] \<and> s \<noteq> ''.'') (split_on CHR ''/'' path)
      in if parts = [] then [] else last parts)"

definition path_suffix :: "string \<Rightarrow> string" where
  "path_suffix path =
     (let name = path_name path in
      case rfind CHR ''.'' name of
        None \<Rightarrow> []
      | Some i \<Rightarrow> if 0 < i \<and> i < length name - 1 then drop i name else [])"

text \<open>\<^verbatim>\<open>str.lower\<close> on the ASCII letters.\<close>

definition lower_char :: "char \<Rightarrow> char" where
  "lower_char c =
     (case map_of (zip ''ABCDEFGHIJKLMNOPQRSTUVWXYZ'' ''abcdefghijklmnopqrstuvwxyz'') c of
        None \<Rightarrow> c
      | Some l \<Rightarrow> l)"

definition lower :: "string \<Rightarrow> string" where
  "lower s = map lower_char s"

text \<open>
  What a call of \<^verbatim>\<open>save_audio\<close> hands to an encoder:
  \<^verbatim>\<open>encode_mp3(wav, path, samplerate, bitrate)\<close> or
  \<^verbatim>\<open>torchaudio.save(path, wav, samplerate, encoding, bits_per_sample)\<close>, where the
  encoding is absent when the call does not pass one.
\<close>

datatype encoding = PCM_S | PCM_F

datatype saved =
    EncodeMp3 tensor string nat nat
  | TaSave string tensor nat "encoding option" nat

text \<open>
  \<^verbatim>\<open>save_audio\<close>. \<^verbatim>\<open>prevent_clip\<close> belongs to another module and is a
  parameter.
\<close>

definition save_audio ::
  "(tensor \<Rightarrow> string \<Rightarrow> tensor) \<Rightarrow> tensor \<Rightarrow> string \<Rightarrow> nat \<Rightarrow> nat \<Rightarrow> string \<Rightarrow> nat \<Rightarrow> bool \<Rightarrow>
   error + saved" where
  "save_audio prevent_clip wav path sample_rate bitrate clip bits_per_sample as_float =
     (let wav = prevent_clip wav clip;
          suffix = lower (path_suffix path)
      in if suffix = ''.mp3'' then Inr (EncodeMp3 wav path sample_rate bitrate)
         else if suffix = ''.wav'' then
           (if as_float then Inr (TaSave path wav sample_rate (Some PCM_F) 32)
            else Inr (TaSave path wav sample_rate (Some PCM_S) bits_per_sample))
         else if suffix = ''.flac'' then Inr (TaSave path wav sample_rate None bits_per_sample)
         else Inl (ValueError (''Invalid suffix for path: '' @ suffix)))"

text \<open>The callback of an object is \<^verbatim>\<open>None\<close> or callable.\<close>

definition callback_ok :: "obj \<Rightarrow> bool" where
  "callback_ok s = (\<exists>c. s ''_callback'' = Some c \<and> (c = PNone \<or> callable c))"

subsection \<open>A separator to evaluate the functions on\<close>

text \<open>
  A model of two channels with the four usual sources, a lookup that knows this model only, and
  the arguments of the constructor: its defaults, on a machine without CUDA, and a callback as
  in the test at the end of the module.
\<close>

definition demo_model :: model where
  "demo_model = \<lparr>sources = [''drums'', ''bass'', ''other'', ''vocals''],
     audio_channels = 2, samplerate = 44100\<rparr>"

definition demo_get_model :: "pyval \<Rightarrow> pyval \<Rightarrow> model option" where
  "demo_get_model name repo = (if name = PStr ''htdemucs'' then Some demo_model else None)"

definition demo_params :: params where
  "demo_params = \<lparr>device = PStr ''cpu'', shifts = PInt 1, overlap = PFloat 0.25,
     split = PBool True, segment = PNone, jobs = PInt 0, progress = PBool False,
     callback = PCallable 0, callback_arg = PNone\<rparr>"

definition demo_separator :: obj where
  "demo_separator =
     (case init demo_get_model (PStr ''htdemucs'') PNone demo_params of
        Inl e \<Rightarrow> Map.empty
      | Inr self \<Rightarrow> self)"

section \<open>Properties of the configuration\<close>

lemma set_attr_apply:
  "set_attr s a v b =
     (if b = a then (if v \<noteq> PNone then Some v else if s a = None then Some PNone else s a)
      else s b)"
  by (simp add: set_attr_def)

lemma set_attr_other: "b \<noteq> a \<Longrightarrow> set_attr s a v b = s b"
  by (simp add: set_attr_def)

lemma set_attr_same:
  "set_attr s a v a = (if v \<noteq> PNone then Some v else if s a = None then Some PNone else s a)"
  by (simp add: set_attr_def)

lemma foldl_set_attr:
  "distinct (map fst kvs) \<Longrightarrow>
   foldl (\<lambda>s (a, v). set_attr s a v) s kvs b =
     (case map_of kvs b of
        None \<Rightarrow> s b
      | Some v \<Rightarrow> if v \<noteq> PNone then Some v else if s b = None then Some PNone else s b)"
proof (induction kvs arbitrary: s)
  case Nil
  then show ?case by simp
next
  case (Cons kv kvs)
  obtain a v where kv: "kv = (a, v)" by (cases kv)
  from Cons.prems kv have d: "distinct (map fst kvs)" and na: "a \<notin> fst ` set kvs" by auto
  from na have none: "map_of kvs a = None" by (simp add: map_of_eq_None_iff)
  have step: "foldl (\<lambda>s (a, v). set_attr s a v) s (kv # kvs) b =
      (case map_of kvs b of
        None \<Rightarrow> set_attr s a v b
      | Some w \<Rightarrow> if w \<noteq> PNone then Some w
                  else if set_attr s a v b = None then Some PNone else set_attr s a v b)"
    using Cons.IH [OF d, of "set_attr s a v"] kv by simp
  show ?case
  proof (cases "b = a")
    case True
    then show ?thesis unfolding step using kv none by (simp add: set_attr_same)
  next
    case False
    then have eq: "set_attr s a v b = s b" by (rule set_attr_other)
    from False show ?thesis unfolding step eq using kv by simp
  qed
qed

lemma update_parameter_foldl:
  "update_parameter s p = foldl (\<lambda>s (a, v). set_attr s a v) s (assignments p)"
  by (simp add: update_parameter_def assignments_def Let_def)

lemma distinct_assignments: "distinct (map fst (assignments p))"
  by (simp add: assignments_def)

lemma fields_assignments: "map fst (assignments p) = config_fields"
  by (simp add: assignments_def config_fields_def)

lemma update_parameter_apply:
  "update_parameter s p a =
     (case offered p a of
        None \<Rightarrow> s a
      | Some v \<Rightarrow> if v \<noteq> PNone then Some v else if s a = None then Some PNone else s a)"
  by (simp add: update_parameter_foldl offered_def foldl_set_attr [OF distinct_assignments])

lemma offered_dom: "offered p a \<noteq> None \<longleftrightarrow> a \<in> set config_fields"
  unfolding offered_def fields_assignments [symmetric, of p]
  by (simp add: map_of_eq_None_iff)

lemma offered_callback:
  "offered p ''_callback'' = Some (if callable (callback p) then callback p else PNone)"
  by (simp add: offered_def assignments_def)

lemma offered_supplied:
  "a \<noteq> ''_callback'' \<Longrightarrow> offered p a = supplied p a"
  by (simp add: offered_def assignments_def supplied_def arguments_def)

lemma supplied_callback: "supplied p ''_callback'' = Some (callback p)"
  by (simp add: supplied_def arguments_def)

lemma supplied_dom: "supplied p a \<noteq> None \<longleftrightarrow> a \<in> set config_fields"
proof -
  have "map fst (arguments p) = config_fields"
    by (simp add: arguments_def config_fields_def)
  then show ?thesis unfolding supplied_def by (metis map_of_eq_None_iff set_map)
qed

lemma update_parameter_keeps:
  assumes "s a = Some v" "v \<noteq> PNone"
  shows "\<exists>w. update_parameter s p a = Some w \<and> w \<noteq> PNone"
  using assms by (cases "offered p a") (auto simp: update_parameter_apply)

lemma foldl_update_parameter_keeps:
  "s a = Some v \<Longrightarrow> v \<noteq> PNone \<Longrightarrow> \<exists>w. foldl update_parameter s ps a = Some w \<and> w \<noteq> PNone"
proof (induction ps arbitrary: s v)
  case Nil
  then show ?case by simp
next
  case (Cons p ps)
  from update_parameter_keeps [of s a v p] Cons.prems
  obtain w where "update_parameter s p a = Some w" "w \<noteq> PNone" by blast
  from Cons.IH [of "update_parameter s p" w] this show ?case by simp
qed

lemma update_parameter_callback_ok_any:
  "s ''_callback'' = None \<or> callback_ok s \<Longrightarrow> callback_ok (update_parameter s p)"
  unfolding callback_ok_def
  by (auto simp: update_parameter_apply offered_callback)

lemma foldl_callback_ok: "callback_ok s \<Longrightarrow> callback_ok (foldl update_parameter s ps)"
  by (induction ps arbitrary: s) (simp_all add: update_parameter_callback_ok_any)

lemma load_model_attrs:
  assumes "load_model gm s = Inr s'"
  shows "\<exists>m. s' = s(''_model'' \<mapsto> PModel m,
                     ''_audio_channels'' \<mapsto> PInt (int (audio_channels m)),
                     ''_samplerate'' \<mapsto> PInt (int (samplerate m)))"
  using assms
  by (auto simp: load_model_def bindE_def getattr_def split: option.splits)

lemma init_result:
  assumes "init gm name repo p = Inr s"
  shows "\<exists>m. gm name repo = Some m \<and>
     s = update_parameter (Map.empty(''_name'' \<mapsto> name, ''_repo'' \<mapsto> repo,
           ''_model'' \<mapsto> PModel m,
           ''_audio_channels'' \<mapsto> PInt (int (audio_channels m)),
           ''_samplerate'' \<mapsto> PInt (int (samplerate m)))) p"
  using assms
  by (auto simp: init_def load_model_def bindE_def getattr_def Let_def split: option.splits)

lemma init_callback_ok: "init gm name repo p = Inr s \<Longrightarrow> callback_ok s"
proof -
  assume "init gm name repo p = Inr s"
  from init_result [OF this] obtain s0 where s: "s = update_parameter s0 p"
    and "s0 ''_callback'' = None" by auto
  then show ?thesis using update_parameter_callback_ok_any [of s0 p] by simp
qed

lemma init_config_set:
  assumes "init gm name repo p = Inr s" "a \<in> set config_fields"
  shows "s a \<noteq> None"
proof -
  from init_result [OF assms(1)] obtain s0 where s: "s = update_parameter s0 p" by auto
  from assms(2) obtain v where "offered p a = Some v" using offered_dom [of p a] by auto
  then show ?thesis unfolding s by (auto simp: update_parameter_apply)
qed

lemma update_parameter_noncallable:
  "\<not> callable (callback p) \<Longrightarrow> update_parameter s p = update_parameter s (p\<lparr>callback := PNone\<rparr>)"
  by (simp add: update_parameter_def)

lemma demo_init:
  "init demo_get_model (PStr ''htdemucs'') PNone demo_params = Inr demo_separator"
  by (simp add: demo_separator_def init_def load_model_def bindE_def getattr_def
      demo_get_model_def)

lemma offered_only_overlap:
  "offered (no_params\<lparr>overlap := x\<rparr>) a =
     (if a = ''_overlap'' then Some x
      else if a \<in> set config_fields then Some PNone else None)"
  by (simp add: offered_def assignments_def no_params_def config_fields_def)

lemma demo_overlap: "demo_separator ''_overlap'' = Some (PFloat 0.25)"
proof -
  from init_result [OF demo_init] obtain s0 where eq: "demo_separator = update_parameter s0 demo_params"
    by blast
  show ?thesis unfolding eq
    by (simp add: update_parameter_apply offered_def assignments_def demo_params_def)
qed

lemma demo_callback: "demo_separator ''_callback'' = Some (PCallable 0)"
proof -
  from init_result [OF demo_init] obtain s0 where eq: "demo_separator = update_parameter s0 demo_params"
    by blast
  show ?thesis unfolding eq
    by (simp add: update_parameter_apply offered_callback demo_params_def)
qed

text \<open>
  Claim C10. A field that holds a value other than \<^verbatim>\<open>None\<close> holds such a value after
  every sequence of calls of \<^verbatim>\<open>update_parameter\<close>. The callback of a constructed
  separator is \<^verbatim>\<open>None\<close> or callable after every such sequence. A callback argument
  that is not callable is treated as \<^verbatim>\<open>None\<close>: the call does what the call without
  it does, and the callback that was in place stays there.
\<close>

theorem config_never_returns_to_null:
  "(s a = Some v \<and> v \<noteq> PNone \<longrightarrow>
      (\<exists>w. foldl update_parameter s ps a = Some w \<and> w \<noteq> PNone))
   \<and> (init get_model name repo p0 = Inr s0 \<longrightarrow>
      (\<exists>c. foldl update_parameter s0 ps ''_callback'' = Some c \<and> (c = PNone \<or> callable c)))
   \<and> (\<not> callable (callback p) \<longrightarrow>
      update_parameter s p = update_parameter s (p\<lparr>callback := PNone\<rparr>))
   \<and> (\<not> callable (callback p) \<and> s ''_callback'' = Some c \<longrightarrow>
      update_parameter s p ''_callback'' = Some c)"
proof (intro conjI impI)
  assume "s a = Some v \<and> v \<noteq> PNone"
  then show "\<exists>w. foldl update_parameter s ps a = Some w \<and> w \<noteq> PNone"
    using foldl_update_parameter_keeps [of s a v ps] by simp
next
  assume "init get_model name repo p0 = Inr s0"
  then have "callback_ok (foldl update_parameter s0 ps)"
    by (intro foldl_callback_ok init_callback_ok)
  then show "\<exists>c. foldl update_parameter s0 ps ''_callback'' = Some c \<and> (c = PNone \<or> callable c)"
    by (simp add: callback_ok_def)
next
  assume "\<not> callable (callback p)"
  then show "update_parameter s p = update_parameter s (p\<lparr>callback := PNone\<rparr>)"
    by (rule update_parameter_noncallable)
next
  assume "\<not> callable (callback p) \<and> s ''_callback'' = Some c"
  then show "update_parameter s p ''_callback'' = Some c"
    by (simp add: update_parameter_apply offered_callback)
qed

theorem config_never_returns_to_null_witness:
  "(\<exists>w. foldl update_parameter demo_separator
          [no_params, no_params\<lparr>callback := PInt 5\<rparr>] ''_overlap'' = Some w \<and> w \<noteq> PNone)
   \<and> (\<exists>c. foldl update_parameter demo_separator
          [no_params, no_params\<lparr>callback := PInt 5\<rparr>] ''_callback'' = Some c
          \<and> (c = PNone \<or> callable c))
   \<and> update_parameter demo_separator (no_params\<lparr>callback := PInt 5\<rparr>)
       = update_parameter demo_separator (no_params\<lparr>callback := PInt 5, callback := PNone\<rparr>)
   \<and> update_parameter demo_separator (no_params\<lparr>callback := PInt 5\<rparr>) ''_callback''
       = Some (PCallable 0)"
proof -
  have ne: "PFloat 0.25 \<noteq> PNone" by simp
  have nc: "\<not> callable (callback (no_params\<lparr>callback := PInt 5\<rparr>))" by simp
  from config_never_returns_to_null [of demo_separator "''_overlap''" "PFloat 0.25"
      "[no_params, no_params\<lparr>callback := PInt 5\<rparr>]" demo_get_model "PStr ''htdemucs''" PNone
      demo_params demo_separator "no_params\<lparr>callback := PInt 5\<rparr>" "PCallable 0"]
    ne nc demo_init demo_overlap demo_callback
  show ?thesis by blast
qed

text \<open>
  Claim C4, as amended. A field takes the value of its argument when that value is not
  \<^verbatim>\<open>None\<close> and, for the callback, is callable. A field whose argument is
  \<^verbatim>\<open>None\<close>, and the callback whose argument is not callable, keeps the value it
  has, and becomes \<^verbatim>\<open>None\<close> when the attribute does not exist yet, as at
  construction. No other attribute changes. After construction, the call that passes
  \<^verbatim>\<open>overlap\<close> alone changes \<^verbatim>\<open>_overlap\<close> alone.
\<close>

theorem update_parameter_partial:
  "(supplied p a = Some v \<and> v \<noteq> PNone \<and> (a = ''_callback'' \<longrightarrow> callable v) \<longrightarrow>
      update_parameter s p a = Some v)
   \<and> ((supplied p a = Some PNone \<or> (a = ''_callback'' \<and> \<not> callable (callback p)))
        \<and> s a = Some w \<longrightarrow> update_parameter s p a = Some w)
   \<and> ((supplied p a = Some PNone \<or> (a = ''_callback'' \<and> \<not> callable (callback p)))
        \<and> s a = None \<longrightarrow> update_parameter s p a = Some PNone)
   \<and> (a \<notin> set config_fields \<longrightarrow> update_parameter s p a = s a)
   \<and> (init get_model name repo p0 = Inr s0 \<and> x \<noteq> PNone \<longrightarrow>
        update_parameter s0 (no_params\<lparr>overlap := x\<rparr>) = s0(''_overlap'' \<mapsto> x))"
proof (intro conjI impI)
  assume h: "supplied p a = Some v \<and> v \<noteq> PNone \<and> (a = ''_callback'' \<longrightarrow> callable v)"
  show "update_parameter s p a = Some v"
  proof (cases "a = ''_callback''")
    case True
    with h have "callback p = v" "callable v" by (simp_all add: supplied_callback)
    with True h show ?thesis by (simp add: update_parameter_apply offered_callback)
  next
    case False
    with h show ?thesis by (simp add: update_parameter_apply offered_supplied)
  qed
next
  assume h: "(supplied p a = Some PNone \<or> (a = ''_callback'' \<and> \<not> callable (callback p)))
        \<and> s a = Some w"
  have "offered p a = Some PNone"
  proof (cases "a = ''_callback''")
    case True
    with h show ?thesis by (auto simp: offered_callback supplied_callback)
  next
    case False
    with h show ?thesis by (simp add: offered_supplied)
  qed
  with h show "update_parameter s p a = Some w" by (simp add: update_parameter_apply)
next
  assume h: "(supplied p a = Some PNone \<or> (a = ''_callback'' \<and> \<not> callable (callback p)))
        \<and> s a = None"
  have "offered p a = Some PNone"
  proof (cases "a = ''_callback''")
    case True
    with h show ?thesis by (auto simp: offered_callback supplied_callback)
  next
    case False
    with h show ?thesis by (simp add: offered_supplied)
  qed
  with h show "update_parameter s p a = Some PNone" by (simp add: update_parameter_apply)
next
  assume "a \<notin> set config_fields"
  then have "offered p a = None" using offered_dom [of p a] by simp
  then show "update_parameter s p a = s a" by (simp add: update_parameter_apply)
next
  assume h: "init get_model name repo p0 = Inr s0 \<and> x \<noteq> PNone"
  show "update_parameter s0 (no_params\<lparr>overlap := x\<rparr>) = s0(''_overlap'' \<mapsto> x)"
  proof
    fix b
    show "update_parameter s0 (no_params\<lparr>overlap := x\<rparr>) b = (s0(''_overlap'' \<mapsto> x)) b"
    proof (cases "b \<in> set config_fields")
      case True
      with h have "s0 b \<noteq> None" using init_config_set [of get_model name repo p0 s0 b] by simp
      with True h show ?thesis
        by (auto simp: update_parameter_apply offered_only_overlap)
    next
      case False
      then have "b \<noteq> ''_overlap''" by (auto simp: config_fields_def)
      with False show ?thesis by (simp add: update_parameter_apply offered_only_overlap)
    qed
  qed
qed

theorem update_parameter_partial_witness:
  "update_parameter demo_separator (no_params\<lparr>overlap := PFloat 0.5\<rparr>) ''_overlap''
      = Some (PFloat 0.5)
   \<and> update_parameter demo_separator (no_params\<lparr>callback := PInt 5\<rparr>) ''_callback''
      = Some (PCallable 0)
   \<and> update_parameter Map.empty no_params ''_segment'' = Some PNone
   \<and> update_parameter demo_separator demo_params ''_model'' = demo_separator ''_model''
   \<and> update_parameter demo_separator (no_params\<lparr>overlap := PFloat 0.5\<rparr>)
      = demo_separator(''_overlap'' \<mapsto> PFloat 0.5)"
proof -
  have 1: "update_parameter demo_separator (no_params\<lparr>overlap := PFloat 0.5\<rparr>) ''_overlap''
      = Some (PFloat 0.5)"
    using update_parameter_partial [of "no_params\<lparr>overlap := PFloat 0.5\<rparr>" "''_overlap''"
        "PFloat 0.5" demo_separator]
    by (simp add: supplied_def arguments_def no_params_def)
  have 2: "update_parameter demo_separator (no_params\<lparr>callback := PInt 5\<rparr>) ''_callback''
      = Some (PCallable 0)"
    using update_parameter_partial [of "no_params\<lparr>callback := PInt 5\<rparr>" "''_callback''"
        _ demo_separator "PCallable 0"] demo_callback
    by simp
  have 3: "update_parameter Map.empty no_params ''_segment'' = Some PNone"
    using update_parameter_partial [of no_params "''_segment''" _ Map.empty]
    by (simp add: supplied_def arguments_def no_params_def)
  have 4: "update_parameter demo_separator demo_params ''_model'' = demo_separator ''_model''"
    using update_parameter_partial [of demo_params "''_model''" _ demo_separator]
    by (simp add: config_fields_def)
  have 5: "update_parameter demo_separator (no_params\<lparr>overlap := PFloat 0.5\<rparr>)
      = demo_separator(''_overlap'' \<mapsto> PFloat 0.5)"
    using update_parameter_partial [of _ _ _ _ _ demo_get_model "PStr ''htdemucs''" PNone
        demo_params demo_separator "PFloat 0.5"] demo_init
    by simp
  from 1 2 3 4 5 show ?thesis by simp
qed

text \<open>
  Claim C4 as stated fails for the callback: the argument \<^verbatim>\<open>5\<close> is not
  \<^verbatim>\<open>None\<close>, and the field does not take it.
\<close>

theorem update_parameter_callback_counterexample:
  "supplied (no_params\<lparr>callback := PInt 5\<rparr>) ''_callback'' = Some (PInt 5)
   \<and> PInt 5 \<noteq> PNone
   \<and> update_parameter demo_separator (no_params\<lparr>callback := PInt 5\<rparr>) ''_callback''
       = Some (PCallable 0)
   \<and> PCallable 0 \<noteq> PInt 5"
  by (simp add: supplied_callback update_parameter_apply offered_callback demo_callback)

section \<open>Properties of saving and loading\<close>

lemma sfx1: "lower (path_suffix ''out/Track.WAV'') = ''.wav''"
  by (simp add: lower_def path_suffix_def path_name_def lower_char_def)
lemma sfx2: "lower (path_suffix ''notes.txt'') = ''.txt''"
  by (simp add: lower_def path_suffix_def path_name_def lower_char_def)

lemma demo_samplerate: "demo_separator ''_samplerate'' = Some (PInt 44100)"
  by (simp add: demo_separator_def init_def load_model_def bindE_def getattr_def
      demo_get_model_def demo_model_def update_parameter_def set_attr_def demo_params_def)

text \<open>
  Claim C7. \<^verbatim>\<open>save_audio\<close> looks at the suffix of the destination in lower case
  only: \<^verbatim>\<open>.mp3\<close> goes to the MP3 encoder, each of \<^verbatim>\<open>.mp3\<close>,
  \<^verbatim>\<open>.wav\<close> and \<^verbatim>\<open>.flac\<close> encodes, every other suffix raises
  \<^verbatim>\<open>ValueError\<close> and nothing is encoded, and two destinations whose suffixes
  differ in case only fail or encode together.
\<close>

theorem save_audio_dispatch:
  "(lower (path_suffix path) = ''.mp3'' \<longrightarrow>
      save_audio prevent_clip wav path sr br clip bits fl
        = Inr (EncodeMp3 (prevent_clip wav clip) path sr br))
   \<and> (lower (path_suffix path) \<in> {''.mp3'', ''.wav'', ''.flac''} \<longrightarrow>
      (\<exists>a. save_audio prevent_clip wav path sr br clip bits fl = Inr a))
   \<and> (lower (path_suffix path) \<notin> {''.mp3'', ''.wav'', ''.flac''} \<longrightarrow>
      save_audio prevent_clip wav path sr br clip bits fl
        = Inl (ValueError (''Invalid suffix for path: '' @ lower (path_suffix path))))
   \<and> (lower (path_suffix path) = lower (path_suffix path') \<longrightarrow>
      isl (save_audio prevent_clip wav path sr br clip bits fl)
        = isl (save_audio prevent_clip wav path' sr br clip bits fl))"
  by (simp add: save_audio_def Let_def)

text \<open>
  Claim C6. For \<^verbatim>\<open>.wav\<close> the encoding is 32-bit float when
  \<^verbatim>\<open>as_float\<close> is set, whatever \<^verbatim>\<open>bits_per_sample\<close> is, and signed
  PCM at \<^verbatim>\<open>bits_per_sample\<close> otherwise; for \<^verbatim>\<open>.flac\<close> the
  encoder gets \<^verbatim>\<open>bits_per_sample\<close> as it is, with \<^verbatim>\<open>as_float\<close> set
  or not.
\<close>

theorem save_audio_encoding:
  "(lower (path_suffix path) = ''.wav'' \<and> fl \<longrightarrow>
      save_audio prevent_clip wav path sr br clip bits fl
        = Inr (TaSave path (prevent_clip wav clip) sr (Some PCM_F) 32))
   \<and> (lower (path_suffix path) = ''.wav'' \<and> \<not> fl \<longrightarrow>
      save_audio prevent_clip wav path sr br clip bits fl
        = Inr (TaSave path (prevent_clip wav clip) sr (Some PCM_S) bits))
   \<and> (lower (path_suffix path) = ''.flac'' \<longrightarrow>
      save_audio prevent_clip wav path sr br clip bits fl
        = Inr (TaSave path (prevent_clip wav clip) sr None bits))"
  by (simp add: save_audio_def Let_def)


lemma sfx3: "lower (path_suffix ''out/Track.Mp3'') = ''.mp3''"
  by (simp add: lower_def path_suffix_def path_name_def lower_char_def)
lemma sfx4: "lower (path_suffix ''out/track.mp3'') = ''.mp3''"
  by (simp add: lower_def path_suffix_def path_name_def lower_char_def)
lemma sfx5: "lower (path_suffix ''out.wav'') = ''.wav''"
  by (simp add: lower_def path_suffix_def path_name_def lower_char_def)
lemma sfx6: "lower (path_suffix ''out.flac'') = ''.flac''"
  by (simp add: lower_def path_suffix_def path_name_def lower_char_def)

theorem save_audio_dispatch_witness:
  "save_audio (\<lambda>w m. w) (Tensor [1, 2] [Fin 0, Fin 1]) ''out/Track.Mp3'' 44100 320 ''rescale'' 16 False
     = Inr (EncodeMp3 (Tensor [1, 2] [Fin 0, Fin 1]) ''out/Track.Mp3'' 44100 320)
   \<and> (\<exists>a. save_audio (\<lambda>w m. w) (Tensor [1, 2] [Fin 0, Fin 1]) ''out/Track.WAV'' 44100 320
          ''rescale'' 16 False = Inr a)
   \<and> save_audio (\<lambda>w m. w) (Tensor [1, 2] [Fin 0, Fin 1]) ''notes.txt'' 44100 320 ''rescale'' 16 False
     = Inl (ValueError ''Invalid suffix for path: .txt'')
   \<and> isl (save_audio (\<lambda>w m. w) (Tensor [1, 2] [Fin 0, Fin 1]) ''out/Track.Mp3'' 44100 320
          ''rescale'' 16 False)
     = isl (save_audio (\<lambda>w m. w) (Tensor [1, 2] [Fin 0, Fin 1]) ''out/track.mp3'' 44100 320
          ''rescale'' 16 False)"
proof -
  let ?w = "Tensor [1, 2] [Fin 0, Fin 1]"
  let ?pc = "\<lambda>(w::tensor) (m::string). w"
  have e: "lower (path_suffix ''out/Track.Mp3'') = lower (path_suffix ''out/track.mp3'')"
    by (simp only: sfx3 sfx4)
  note t = save_audio_dispatch [of "''out/Track.Mp3''" ?pc ?w 44100 320 "''rescale''" 16 False
      "''out/track.mp3''"]
  from t sfx3 have 1: "save_audio ?pc ?w ''out/Track.Mp3'' 44100 320 ''rescale'' 16 False
             = Inr (EncodeMp3 ?w ''out/Track.Mp3'' 44100 320)"
    by blast
  from t e have 4: "isl (save_audio ?pc ?w ''out/Track.Mp3'' 44100 320 ''rescale'' 16 False)
             = isl (save_audio ?pc ?w ''out/track.mp3'' 44100 320 ''rescale'' 16 False)"
    by blast
  from save_audio_dispatch [of "''out/Track.WAV''" ?pc ?w 44100 320 "''rescale''" 16 False] sfx1
  have 2: "\<exists>a. save_audio ?pc ?w ''out/Track.WAV'' 44100 320 ''rescale'' 16 False = Inr a"
    by simp
  from save_audio_dispatch [of "''notes.txt''" ?pc ?w 44100 320 "''rescale''" 16 False] sfx2
  have 3: "save_audio ?pc ?w ''notes.txt'' 44100 320 ''rescale'' 16 False
             = Inl (ValueError ''Invalid suffix for path: .txt'')"
    by simp
  from 1 2 3 4 show ?thesis by blast
qed

theorem save_audio_encoding_witness:
  "save_audio (\<lambda>w m. w) (Tensor [1, 2] [Fin 0, Fin 1]) ''out.wav'' 44100 320 ''rescale'' 16 True
     = Inr (TaSave ''out.wav'' (Tensor [1, 2] [Fin 0, Fin 1]) 44100 (Some PCM_F) 32)
   \<and> save_audio (\<lambda>w m. w) (Tensor [1, 2] [Fin 0, Fin 1]) ''out.wav'' 44100 320 ''rescale'' 24 False
     = Inr (TaSave ''out.wav'' (Tensor [1, 2] [Fin 0, Fin 1]) 44100 (Some PCM_S) 24)
   \<and> save_audio (\<lambda>w m. w) (Tensor [1, 2] [Fin 0, Fin 1]) ''out.flac'' 44100 320 ''rescale'' 24 True
     = Inr (TaSave ''out.flac'' (Tensor [1, 2] [Fin 0, Fin 1]) 44100 None 24)"
proof -
  let ?w = "Tensor [1, 2] [Fin 0, Fin 1]"
  let ?pc = "\<lambda>(w::tensor) (m::string). w"
  from save_audio_encoding [of "''out.wav''" True ?pc ?w 44100 320 "''rescale''" 16] sfx5
  have 1: "save_audio ?pc ?w ''out.wav'' 44100 320 ''rescale'' 16 True
     = Inr (TaSave ''out.wav'' ?w 44100 (Some PCM_F) 32)" by simp
  from save_audio_encoding [of "''out.wav''" False ?pc ?w 44100 320 "''rescale''" 24] sfx5
  have 2: "save_audio ?pc ?w ''out.wav'' 44100 320 ''rescale'' 24 False
     = Inr (TaSave ''out.wav'' ?w 44100 (Some PCM_S) 24)" by simp
  from save_audio_encoding [of "''out.flac''" True ?pc ?w 44100 320 "''rescale''" 24] sfx6
  have 3: "save_audio ?pc ?w ''out.flac'' 44100 320 ''rescale'' 24 True
     = Inr (TaSave ''out.flac'' ?w 44100 None 24)" by simp
  from 1 2 3 show ?thesis by blast
qed

lemma demo_audio_channels: "demo_separator ''_audio_channels'' = Some (PInt 2)"
  by (simp add: demo_separator_def init_def load_model_def bindE_def getattr_def
      demo_get_model_def demo_model_def update_parameter_def set_attr_def demo_params_def)





text \<open>
  A \<^verbatim>\<open>RuntimeError\<close> without an argument: the handler of the second backend
  raises \<^verbatim>\<open>IndexError\<close>, whatever the first backend recorded.
\<close>

lemma load_audio_no_argument:
  "load_audio object_repr (ffmpeg_fails ''A'') (torchaudio_fails []) convert_nothing
      demo_separator ''song.mp3'' = Inl IndexError"
  by (simp add: load_audio_def bindE_def getattr_def demo_samplerate demo_audio_channels
      ffmpeg_fails_def torchaudio_fails_def)

section \<open>Properties of the separation\<close>

lemma ready_attrs:
  assumes "ready self"
  obtains md sg sh sp ov dv jb cb ca pr where
    "self ''_model'' = Some (PModel md)" "self ''_segment'' = Some sg"
    "self ''_shifts'' = Some sh" "self ''_split'' = Some sp" "self ''_overlap'' = Some ov"
    "self ''_device'' = Some dv" "self ''_jobs'' = Some jb" "self ''_callback'' = Some cb"
    "self ''_callback_arg'' = Some ca" "ca = PNone \<or> ca = PDict (context_of self)"
    "self ''_progress'' = Some pr"
proof -
  from assms have all: "\<forall>a \<in> set config_fields. self a \<noteq> None"
    by (simp add: ready_def list_all_iff)
  from assms obtain md where md: "self ''_model'' = Some (PModel md)"
    by (auto simp: ready_def split: option.splits pyval.splits)
  from assms obtain ca where ca: "self ''_callback_arg'' = Some ca"
    "ca = PNone \<or> ca = PDict (context_of self)"
    by (auto simp: ready_def context_of_def split: option.splits pyval.splits)
  from all obtain sg sh sp ov dv jb cb pr where o:
    "self ''_segment'' = Some sg"
    "self ''_shifts'' = Some sh" "self ''_split'' = Some sp" "self ''_overlap'' = Some ov"
    "self ''_device'' = Some dv" "self ''_jobs'' = Some jb" "self ''_callback'' = Some cb"
    "self ''_progress'' = Some pr"
    by (auto simp: config_fields_def)
  from md o(1-7) ca o(8) show ?thesis by (rule that)
qed

lemma context_of_None: "self ''_callback_arg'' = Some PNone \<Longrightarrow> context_of self = []"
  by (simp add: context_of_def)

lemma apply_arguments_ready:
  assumes "ready self" "1 < length (shape w)"
  shows "\<exists>model kw. apply_arguments self w = Inr (model, unsqueeze0 w, kw)
     \<and> self ''_model'' = Some model
     \<and> callback_arg kw = PDict (AList.update ''audio_length'' (PInt (int (shape w ! 1)))
                                  (context_of self))"
proof -
  from assms(1) obtain md sg sh sp ov dv jb cb ca pr where a:
    "self ''_model'' = Some (PModel md)" "self ''_segment'' = Some sg"
    "self ''_shifts'' = Some sh" "self ''_split'' = Some sp" "self ''_overlap'' = Some ov"
    "self ''_device'' = Some dv" "self ''_jobs'' = Some jb" "self ''_callback'' = Some cb"
    "self ''_callback_arg'' = Some ca" "ca = PNone \<or> ca = PDict (context_of self)"
    "self ''_progress'' = Some pr"
    by (rule ready_attrs)
  from a(10) show ?thesis
  proof
    assume "ca = PNone"
    with a assms(2) show ?thesis
      by (simp add: apply_arguments_def bindE_def getattr_def shape_at_def replace_dict_def
          context_of_None)
  next
    assume "ca = PDict (context_of self)"
    with a assms(2) show ?thesis
      by (simp add: apply_arguments_def bindE_def getattr_def shape_at_def replace_dict_def)
  qed
qed

lemma update_fresh: "k \<notin> fst ` set al \<Longrightarrow> AList.update k v al = al @ [(k, v)]"
  by (induction al) auto

lemma foldl_update_distinct:
  "distinct (map fst (acc @ ps)) \<Longrightarrow>
   foldl (\<lambda>d (k, v). AList.update k v d) acc ps = acc @ ps"
proof (induction ps arbitrary: acc)
  case Nil
  then show ?case by simp
next
  case (Cons p ps)
  obtain k v where p: "p = (k, v)" by (cases p)
  from Cons.prems p have fresh: "k \<notin> fst ` set acc" by auto
  from Cons.prems p have "distinct (map fst ((acc @ [(k, v)]) @ ps))" by simp
  from Cons.IH [OF this] show ?case using p fresh by (simp add: update_fresh)
qed

lemma dict_of_distinct: "distinct (map fst ps) \<Longrightarrow> dict_of ps = ps"
  using foldl_update_distinct [of "[]" ps] by (simp add: dict_of_def)

lemma dict_of_zip:
  assumes "distinct names" "length stems = length names"
  shows "dict_of (zip names stems) = zip names stems"
  using assms by (intro dict_of_distinct) simp

lemma shape_tmap: "shape (tmap f t) = shape t"
  by (simp add: tmap_def)

lemma per_source_stems:
  assumes "per_source md out"
  shows "\<exists>out0 stems. index0 (tmap g out) = Inr out0 \<and> unbind out0 = Inr stems
     \<and> length stems = length (sources md)"
  using assms
  by (auto simp: per_source_def index0_def unbind_def tmap_def Let_def split: list.splits)

lemma foldl_fadd_Fin: "foldl fadd (Fin a) (map Fin xs) = Fin (a + sum_list xs)"
  by (induction xs arbitrary: a) (simp_all add: add.assoc)

lemma fsum_Fin: "fsum (map Fin xs) = Fin (sum_list xs)"
  by (simp add: fsum_def foldl_fadd_Fin)

lemma mean_Fin: "xs \<noteq> [] \<Longrightarrow> mean (map Fin xs) = Fin (sum_list xs / real (length xs))"
  by (simp add: mean_def fsum_Fin)

lemma std_Fin:
  assumes "2 \<le> length xs"
  shows "std (map Fin xs) =
     Fin (sqrt (sum_list (map (\<lambda>x. (x - sum_list xs / real (length xs))\<^sup>2) xs)
                / real (length xs - 1)))"
proof -
  let ?mu = "sum_list xs / real (length xs)"
  from assms have ne: "xs \<noteq> []" by auto
  have sq: "map (\<lambda>x. fmul (fsub x (Fin ?mu)) (fsub x (Fin ?mu))) (map Fin xs)
      = map Fin (map (\<lambda>x. (x - ?mu)\<^sup>2) xs)"
    by (simp add: power2_eq_square)
  have nonneg: "0 \<le> sum_list (map (\<lambda>x. (x - ?mu)\<^sup>2) xs)"
    by (rule sum_list_nonneg) auto
  from assms have pos: "real (length xs - 1) \<noteq> 0" by simp
  from nonneg have "\<not> sum_list (map (\<lambda>x. (x - ?mu)\<^sup>2) xs) / real (length xs - 1) < 0"
    by (simp add: not_less)
  with pos show ?thesis
    unfolding std_def Let_def mean_Fin [OF ne] sq fsum_Fin by simp
qed

lemma sum_list_upt: "sum_list (map f [0..<n]) = (\<Sum>i<n. f i)"
  by (simp add: interv_sum_list_conv_sum_set_nat atLeast0LessThan)

lemma mean0_Fin:
  assumes "0 < c" "length xs = c * n"
  shows "mean0 (Tensor [c, n] (map Fin xs)) = Tensor [n] (map Fin (map (ref_signal c n xs) [0..<n]))"
proof -
  have "mean (map (\<lambda>i. map Fin xs ! (i * n + j)) [0..<c]) = Fin (ref_signal c n xs j)"
    if "j < n" for j
  proof -
    have idx: "i * n + j < length xs" if "i < c" for i
    proof -
      from that have "Suc i \<le> c" by simp
      then have "Suc i * n \<le> c * n" by (rule mult_le_mono1)
      with \<open>j < n\<close> assms(2) show ?thesis by simp
    qed
    have eq: "map (\<lambda>i. map Fin xs ! (i * n + j)) [0..<c] = map Fin (map (\<lambda>i. xs ! (i * n + j)) [0..<c])"
      using idx by simp
    from assms(1) have ne: "map (\<lambda>i. xs ! (i * n + j)) [0..<c] \<noteq> []" by simp
    show ?thesis unfolding eq mean_Fin [OF ne]
      by (simp add: ref_signal_def sum_list_upt)
  qed
  then show ?thesis by (simp add: mean0_def)
qed

lemma ref_stats:
  assumes "0 < c" "0 < n" "length xs = c * n"
  shows "tmean (mean0 (Tensor [c, n] (map Fin xs))) = Fin (ref_mean c n xs)"
    and "2 \<le> n \<Longrightarrow> tstd (mean0 (Tensor [c, n] (map Fin xs))) = Fin (ref_std c n xs)"
proof -
  let ?rs = "map (ref_signal c n xs) [0..<n]"
  from assms(2) have ne: "?rs \<noteq> []" by simp
  have m: "sum_list ?rs / real (length ?rs) = ref_mean c n xs"
    by (simp add: ref_mean_def sum_list_upt)
  show "tmean (mean0 (Tensor [c, n] (map Fin xs))) = Fin (ref_mean c n xs)"
    unfolding mean0_Fin [OF assms(1,3)] tmean_def using mean_Fin [OF ne] m by simp
  assume "2 \<le> n"
  then have len: "2 \<le> length ?rs" by simp
  have "sum_list (map (\<lambda>x. (x - ref_mean c n xs)\<^sup>2) ?rs)
      = (\<Sum>j<n. (ref_signal c n xs j - ref_mean c n xs)\<^sup>2)"
    using sum_list_upt [of "\<lambda>j. (ref_signal c n xs j - ref_mean c n xs)\<^sup>2" n]
    by (simp add: comp_def)
  then show "tstd (mean0 (Tensor [c, n] (map Fin xs))) = Fin (ref_std c n xs)"
    unfolding mean0_Fin [OF assms(1,3)] tstd_def using std_Fin [OF len] m
    by (simp add: ref_std_def)
qed

lemma separate_tensor_ready:
  assumes "ready self" "self ''_model'' = Some (PModel md)" "1 < length (shape wav)"
  shows "\<exists>kw. callback_arg kw = PDict (AList.update ''audio_length'' (PInt (int (shape wav ! 1)))
                                        (context_of self))
     \<and> (\<forall>am. separate_tensor am self wav =
         (let M = tmean (mean0 wav); S = tstd (mean0 wav);
              w = tmap (\<lambda>x. fdiv (fsub x M) S) wav;
              out = tmap (\<lambda>y. fadd (fmul y S) M) (am (PModel md) (unsqueeze0 w) kw)
          in bindE (index0 out) (\<lambda>out0.
             bindE (unbind out0) (\<lambda>stems.
               Inr (w, dict_of (zip (sources md) stems))))))"
proof -
  let ?w = "tmap (\<lambda>x. fdiv (fsub x (tmean (mean0 wav))) (tstd (mean0 wav))) wav"
  from assms(3) have "1 < length (shape ?w)" by (simp add: shape_tmap)
  from apply_arguments_ready [OF assms(1) this] assms(2)
  obtain kw where kw: "apply_arguments self ?w = Inr (PModel md, unsqueeze0 ?w, kw)"
    "callback_arg kw = PDict (AList.update ''audio_length'' (PInt (int (shape wav ! 1)))
                                  (context_of self))"
    by (auto simp: shape_tmap)
  have "\<forall>am. separate_tensor am self wav =
         (let M = tmean (mean0 wav); S = tstd (mean0 wav);
              w = tmap (\<lambda>x. fdiv (fsub x M) S) wav;
              out = tmap (\<lambda>y. fadd (fmul y S) M) (am (PModel md) (unsqueeze0 w) kw)
          in bindE (index0 out) (\<lambda>out0.
             bindE (unbind out0) (\<lambda>stems.
               Inr (w, dict_of (zip (sources md) stems)))))"
    using assms(2) kw(1)
    by (simp add: separate_tensor_def Let_def bindE_def getattr_def model_sources_def)
  with kw(2) show ?thesis by blast
qed

lemma take_drop_replicate:
  "i < k \<Longrightarrow> take (length ys) (drop (i * length ys) (concat (replicate k ys))) = ys"
proof (induction k arbitrary: i)
  case 0
  then show ?case by simp
next
  case (Suc k)
  show ?case
  proof (cases i)
    case 0
    then show ?thesis by simp
  next
    case (Suc j)
    with Suc.prems have "j < k" by simp
    from Suc.IH [OF this] Suc show ?thesis by simp
  qed
qed

lemma length_concat_replicate: "length (concat (replicate k ys)) = k * length ys"
  by (induction k) simp_all

lemma identity_stems:
  assumes "wellformed w"
  shows "index0 (tmap g (identity_strategy (PModel md) (unsqueeze0 w) kw))
           = Inr (Tensor (length (sources md) # shape w)
                    (map g (concat (replicate (length (sources md)) (data w)))))"
    and "unbind (Tensor (length (sources md) # shape w)
                    (map g (concat (replicate (length (sources md)) (data w)))))
           = Inr (replicate (length (sources md)) (tmap g w))"
proof -
  let ?k = "length (sources md)"
  from assms have len: "prod_list (shape w) = length (data w)" by (simp add: wellformed_def)
  show "index0 (tmap g (identity_strategy (PModel md) (unsqueeze0 w) kw))
           = Inr (Tensor (?k # shape w) (map g (concat (replicate ?k (data w)))))"
    by (simp add: index0_def tmap_def identity_strategy_def unsqueeze0_def len
        length_concat_replicate)
  have "take (length (data w)) (drop (i * length (data w)) (map g (concat (replicate ?k (data w)))))
      = map g (data w)" if "i < ?k" for i
    using take_drop_replicate [OF that, of "data w"] by (simp add: take_map drop_map)
  then have "map (\<lambda>i. Tensor (shape w) (take (length (data w))
        (drop (i * length (data w)) (map g (concat (replicate ?k (data w))))))) [0..<?k]
      = map (\<lambda>i. tmap g w) [0..<?k]"
    by (simp add: tmap_def)
  then show "unbind (Tensor (?k # shape w) (map g (concat (replicate ?k (data w)))))
           = Inr (replicate ?k (tmap g w))"
    by (simp add: unbind_def len Let_def map_replicate_const)
qed

lemma zip_replicate: "zip xs (replicate (length xs) y) = map (\<lambda>x. (x, y)) xs"
  by (induction xs) simp_all

lemma wellformed_tmap: "wellformed (tmap f t) = wellformed t"
  by (simp add: wellformed_def tmap_def)

lemma tmap_tmap: "tmap g (tmap f t) = tmap (g \<circ> f) t"
  by (simp add: tmap_def)

lemma separate_tensor_identity:
  assumes "ready self" "self ''_model'' = Some (PModel md)" "1 < length (shape wav)"
    "wellformed wav"
  shows "separate_tensor identity_strategy self wav =
     (let M = tmean (mean0 wav); S = tstd (mean0 wav)
      in Inr (tmap (\<lambda>x. fdiv (fsub x M) S) wav,
              dict_of (map (\<lambda>name. (name, tmap (\<lambda>x. fadd (fmul (fdiv (fsub x M) S) S) M) wav))
                           (sources md))))"
proof -
  let ?M = "tmean (mean0 wav)" and ?S = "tstd (mean0 wav)"
  let ?w = "tmap (\<lambda>x. fdiv (fsub x ?M) ?S) wav"
  let ?g = "\<lambda>y. fadd (fmul y ?S) ?M"
  from assms(4) have wf: "wellformed ?w" by (simp add: wellformed_tmap)
  from separate_tensor_ready [OF assms(1-3)] obtain kw where
    "separate_tensor identity_strategy self wav =
       bindE (index0 (tmap ?g (identity_strategy (PModel md) (unsqueeze0 ?w) kw))) (\<lambda>out0.
       bindE (unbind out0) (\<lambda>stems. Inr (?w, dict_of (zip (sources md) stems))))"
    by (auto simp: Let_def)
  then show ?thesis
    unfolding identity_stems(1) [OF wf]
    by (simp add: bindE_def identity_stems(2) [OF wf] zip_replicate Let_def tmap_tmap comp_def)
qed

lemma update_parameter_ready:
  assumes "ready s" "callback_arg p = PNone \<or> (\<exists>d. callback_arg p = PDict d)"
  shows "ready (update_parameter s p)"
proof -
  have keep: "update_parameter s p a \<noteq> None" if "s a \<noteq> None" for a
    using that by (cases "offered p a") (auto simp: update_parameter_apply)
  have "''_model'' \<notin> set config_fields" by (simp add: config_fields_def)
  then have "offered p ''_model'' = None" using offered_dom [of p "''_model''"] by simp
  then have md: "update_parameter s p ''_model'' = s ''_model''"
    by (simp add: update_parameter_apply)
  have ca: "offered p ''_callback_arg'' = Some (callback_arg p)"
    by (simp add: offered_def assignments_def)
  from assms(1) have "\<forall>a \<in> set config_fields. s a \<noteq> None"
    by (simp add: ready_def list_all_iff)
  with keep have 1: "list_all (\<lambda>a. update_parameter s p a \<noteq> None) config_fields"
    unfolding list_all_iff by blast
  from assms(1) have 2: "(case update_parameter s p ''_model'' of
       Some (PModel m) \<Rightarrow> True | _ \<Rightarrow> False)"
    by (simp add: ready_def md)
  from assms have 3: "(case update_parameter s p ''_callback_arg'' of
       Some PNone \<Rightarrow> True | Some (PDict d) \<Rightarrow> True | _ \<Rightarrow> False)"
    by (auto simp: ready_def update_parameter_apply ca split: option.splits pyval.splits)
  from 1 2 3 show ?thesis by (simp add: ready_def)
qed

lemma init_ready:
  assumes "init gm name repo p = Inr s" "callback_arg p = PNone \<or> (\<exists>d. callback_arg p = PDict d)"
  shows "ready s"
proof -
  from init_result [OF assms(1)] obtain m s0 where s: "s = update_parameter s0 p"
    and s0: "s0 ''_model'' = Some (PModel m)" "s0 ''_callback_arg'' = None"
    by auto
  have "''_model'' \<notin> set config_fields" by (simp add: config_fields_def)
  then have "offered p ''_model'' = None" using offered_dom [of p "''_model''"] by simp
  then have md: "s ''_model'' = Some (PModel m)"
    by (simp add: s update_parameter_apply s0)
  have ca: "offered p ''_callback_arg'' = Some (callback_arg p)"
    by (simp add: offered_def assignments_def)
  have 1: "list_all (\<lambda>a. s a \<noteq> None) config_fields"
    using init_config_set [OF assms(1)] by (simp add: list_all_iff)
  from assms(2) have 3: "(case s ''_callback_arg'' of
       Some PNone \<Rightarrow> True | Some (PDict d) \<Rightarrow> True | _ \<Rightarrow> False)"
    by (auto simp: s update_parameter_apply ca s0)
  from 1 md 3 show ?thesis by (simp add: ready_def)
qed

lemma demo_ready: "ready demo_separator"
  by (rule init_ready [OF demo_init]) (simp add: demo_params_def)

lemma demo_model_attr: "demo_separator ''_model'' = Some (PModel demo_model)"
  by (simp add: demo_separator_def init_def load_model_def bindE_def getattr_def
      demo_get_model_def update_parameter_def set_attr_def demo_params_def)

lemma ex_mean0: "mean0 (Tensor [2, 3] [Fin 0, Fin 1, Fin 2, Fin 0, Fin 1, Fin 2])
   = Tensor [3] [Fin 0, Fin 1, Fin 2]"
  by (simp add: mean0_def mean_def fsum_def upt_rec nth_Cons')

lemma ex_tmean: "tmean (Tensor [3] [Fin 0, Fin 1, Fin 2]) = Fin 1"
  by (simp add: tmean_def mean_def fsum_def)

lemma ex_tstd: "tstd (Tensor [3] [Fin 0, Fin 1, Fin 2]) = Fin 1"
  by (simp add: tstd_def std_def mean_def fsum_def Let_def)

lemma ex_silence_mean0: "mean0 (Tensor [2, 3] [Fin 0, Fin 0, Fin 0, Fin 0, Fin 0, Fin 0])
   = Tensor [3] [Fin 0, Fin 0, Fin 0]"
  by (simp add: mean0_def mean_def fsum_def upt_rec nth_Cons')

lemma ex_silence_tmean: "tmean (Tensor [3] [Fin 0, Fin 0, Fin 0]) = Fin 0"
  by (simp add: tmean_def mean_def fsum_def)

lemma ex_silence_tstd: "tstd (Tensor [3] [Fin 0, Fin 0, Fin 0]) = Fin 0"
  by (simp add: tstd_def std_def mean_def fsum_def Let_def)

lemma dict_of_demo:
  "dict_of (map (\<lambda>name. (name, t)) (sources demo_model))
     = [(''drums'', t), (''bass'', t), (''other'', t), (''vocals'', t)]"
  by (simp add: dict_of_distinct demo_model_def)

text \<open>
  Claim C1 says that the first element of the result is the waveform that was passed, unchanged,
  and the second the mapping from the source names to the separated waveforms. On the waveform
  of two channels \<open>0, 1, 2\<close>, whose reference signal has mean 1 and standard deviation 1,
  the first element is the normalized waveform \<open>-1, 0, 1\<close>: the normalization binds the
  name \<^verbatim>\<open>wav\<close> again, and the last line returns that name, while the docstring
  of the method promises the original wave.
\<close>

theorem separate_tensor_returns_normalized:
  "separate_tensor identity_strategy demo_separator
      (Tensor [2, 3] [Fin 0, Fin 1, Fin 2, Fin 0, Fin 1, Fin 2])
     = Inr (Tensor [2, 3] [Fin (- 1), Fin 0, Fin 1, Fin (- 1), Fin 0, Fin 1],
            [(''drums'', Tensor [2, 3] [Fin 0, Fin 1, Fin 2, Fin 0, Fin 1, Fin 2]),
             (''bass'', Tensor [2, 3] [Fin 0, Fin 1, Fin 2, Fin 0, Fin 1, Fin 2]),
             (''other'', Tensor [2, 3] [Fin 0, Fin 1, Fin 2, Fin 0, Fin 1, Fin 2]),
             (''vocals'', Tensor [2, 3] [Fin 0, Fin 1, Fin 2, Fin 0, Fin 1, Fin 2])])
   \<and> Tensor [2, 3] [Fin (- 1), Fin 0, Fin 1, Fin (- 1), Fin 0, Fin 1]
       \<noteq> Tensor [2, 3] [Fin 0, Fin 1, Fin 2, Fin 0, Fin 1, Fin 2]"
proof -
  let ?W = "Tensor [2, 3] [Fin 0, Fin 1, Fin 2, Fin 0, Fin 1, Fin 2]"
  have wf: "wellformed ?W" by (simp add: wellformed_def)
  have sh: "1 < length (shape ?W)" by simp
  show ?thesis
    unfolding separate_tensor_identity [OF demo_ready demo_model_attr sh wf]
      ex_mean0 ex_tmean ex_tstd Let_def dict_of_demo
    by (simp add: tmap_def)
qed

text \<open>
  Claim C3 says that denormalizing the normalized waveform yields the waveform again, for any
  waveform and with a strategy that returns the mixture in between. On silence it does not: the
  standard deviation of the reference signal is zero, the normalization divides by it without a
  guard, zero by zero, and every sample of the normalized waveform and of every stem is NaN.
  The samples and every value on the way are zero, which 32-bit floats hold exactly.
\<close>

theorem normalization_round_trip_on_silence:
  "separate_tensor identity_strategy demo_separator
      (Tensor [2, 3] [Fin 0, Fin 0, Fin 0, Fin 0, Fin 0, Fin 0])
     = Inr (Tensor [2, 3] [NonFin, NonFin, NonFin, NonFin, NonFin, NonFin],
            [(''drums'', Tensor [2, 3] [NonFin, NonFin, NonFin, NonFin, NonFin, NonFin]),
             (''bass'', Tensor [2, 3] [NonFin, NonFin, NonFin, NonFin, NonFin, NonFin]),
             (''other'', Tensor [2, 3] [NonFin, NonFin, NonFin, NonFin, NonFin, NonFin]),
             (''vocals'', Tensor [2, 3] [NonFin, NonFin, NonFin, NonFin, NonFin, NonFin])])
   \<and> Tensor [2, 3] [NonFin, NonFin, NonFin, NonFin, NonFin, NonFin]
       \<noteq> Tensor [2, 3] [Fin 0, Fin 0, Fin 0, Fin 0, Fin 0, Fin 0]"
proof -
  let ?W = "Tensor [2, 3] [Fin 0, Fin 0, Fin 0, Fin 0, Fin 0, Fin 0]"
  have wf: "wellformed ?W" by (simp add: wellformed_def)
  have sh: "1 < length (shape ?W)" by simp
  show ?thesis
    unfolding separate_tensor_identity [OF demo_ready demo_model_attr sh wf]
      ex_silence_mean0 ex_silence_tmean ex_silence_tstd Let_def dict_of_demo
    by (simp add: tmap_def)
qed

text \<open>
  Claim C2. One mean and one standard deviation, those of the mean of the channels over the
  whole input, serve every channel: each sample of the waveform given to the strategy is the
  sample of the input less that mean, divided by that standard deviation, and each sample of
  the stems is the sample of the output of the strategy times the same standard deviation, plus
  the same mean. For finite samples the two statistics are the mean and the unbiased standard
  deviation of the channel-averaged signal.
\<close>

theorem normalization_statistics:
  "(ready self \<and> self ''_model'' = Some (PModel md) \<and> 1 < length (shape wav) \<longrightarrow>
      (\<exists>kw. separate_tensor apply_model self wav =
         (let M = tmean (mean0 wav); S = tstd (mean0 wav);
              w = tmap (\<lambda>x. fdiv (fsub x M) S) wav;
              out = tmap (\<lambda>y. fadd (fmul y S) M) (apply_model (PModel md) (unsqueeze0 w) kw)
          in bindE (index0 out) (\<lambda>out0.
             bindE (unbind out0) (\<lambda>stems.
               Inr (w, dict_of (zip (sources md) stems)))))))
   \<and> (0 < c \<and> 0 < n \<and> length xs = c * n \<longrightarrow>
        tmean (mean0 (Tensor [c, n] (map Fin xs))) = Fin (ref_mean c n xs))
   \<and> (0 < c \<and> 2 \<le> n \<and> length xs = c * n \<longrightarrow>
        tstd (mean0 (Tensor [c, n] (map Fin xs))) = Fin (ref_std c n xs))"
proof (intro conjI impI)
  assume h: "ready self \<and> self ''_model'' = Some (PModel md) \<and> 1 < length (shape wav)"
  then have r: "ready self" and m: "self ''_model'' = Some (PModel md)"
    and sh: "1 < length (shape wav)" by simp_all
  from separate_tensor_ready [OF r m sh]
  show "\<exists>kw. separate_tensor apply_model self wav =
         (let M = tmean (mean0 wav); S = tstd (mean0 wav);
              w = tmap (\<lambda>x. fdiv (fsub x M) S) wav;
              out = tmap (\<lambda>y. fadd (fmul y S) M) (apply_model (PModel md) (unsqueeze0 w) kw)
          in bindE (index0 out) (\<lambda>out0.
             bindE (unbind out0) (\<lambda>stems.
               Inr (w, dict_of (zip (sources md) stems)))))"
    by blast
next
  assume "0 < c \<and> 0 < n \<and> length xs = c * n"
  then show "tmean (mean0 (Tensor [c, n] (map Fin xs))) = Fin (ref_mean c n xs)"
    using ref_stats(1) [of c n xs] by simp
next
  assume "0 < c \<and> 2 \<le> n \<and> length xs = c * n"
  then show "tstd (mean0 (Tensor [c, n] (map Fin xs))) = Fin (ref_std c n xs)"
    using ref_stats(2) [of c n xs] by simp
qed

theorem normalization_statistics_witness:
  "(\<exists>kw. separate_tensor identity_strategy demo_separator
            (Tensor [2, 3] (map Fin [0, 1, 2, 0, 1, 2])) =
         (let M = tmean (mean0 (Tensor [2, 3] (map Fin [0, 1, 2, 0, 1, 2])));
              S = tstd (mean0 (Tensor [2, 3] (map Fin [0, 1, 2, 0, 1, 2])));
              w = tmap (\<lambda>x. fdiv (fsub x M) S) (Tensor [2, 3] (map Fin [0, 1, 2, 0, 1, 2]));
              out = tmap (\<lambda>y. fadd (fmul y S) M)
                      (identity_strategy (PModel demo_model) (unsqueeze0 w) kw)
          in bindE (index0 out) (\<lambda>out0.
             bindE (unbind out0) (\<lambda>stems.
               Inr (w, dict_of (zip (sources demo_model) stems))))))
   \<and> tmean (mean0 (Tensor [2, 3] (map Fin [0, 1, 2, 0, 1, 2])))
       = Fin (ref_mean 2 3 [0, 1, 2, 0, 1, 2])
   \<and> tstd (mean0 (Tensor [2, 3] (map Fin [0, 1, 2, 0, 1, 2])))
       = Fin (ref_std 2 3 [0, 1, 2, 0, 1, 2])"
proof -
  have h1: "ready demo_separator \<and> demo_separator ''_model'' = Some (PModel demo_model)
     \<and> 1 < length (shape (Tensor [2, 3] (map Fin [0, 1, 2, 0, 1, 2])))"
    by (simp add: demo_ready demo_model_attr)
  have h2: "(0::nat) < 2 \<and> (0::nat) < 3 \<and> length [0, 1, 2, 0, 1, 2 :: real] = 2 * 3" by simp
  have h3: "(0::nat) < 2 \<and> (2::nat) \<le> 3 \<and> length [0, 1, 2, 0, 1, 2 :: real] = 2 * 3" by simp
  from normalization_statistics [of demo_separator demo_model
      "Tensor [2, 3] (map Fin [0, 1, 2, 0, 1, 2])" identity_strategy 2 3 "[0, 1, 2, 0, 1, 2]"]
    h1 h2 h3
  show ?thesis by blast
qed

text \<open>
  Claim C8. When the names of the sources are distinct and the strategy returns a batch with
  one tensor per source, the mapping that \<^verbatim>\<open>separate_tensor\<close> returns lists the
  names of the model in their order, the name at each position with the tensor at that position
  of the first entry of the batch, for every waveform.
\<close>

theorem source_mapping_order:
  "ready self \<and> self ''_model'' = Some (PModel md) \<and> distinct (sources md)
     \<and> 1 < length (shape wav)
     \<and> (\<forall>mix kw. per_source md (apply_model (PModel md) mix kw)) \<longrightarrow>
   (\<exists>w mix kw out0 stems.
      separate_tensor apply_model self wav = Inr (w, zip (sources md) stems)
      \<and> map fst (zip (sources md) stems) = sources md
      \<and> length stems = length (sources md)
      \<and> index0 (tmap (\<lambda>y. fadd (fmul y (tstd (mean0 wav))) (tmean (mean0 wav)))
                     (apply_model (PModel md) mix kw)) = Inr out0
      \<and> unbind out0 = Inr stems)"
proof
  assume h: "ready self \<and> self ''_model'' = Some (PModel md) \<and> distinct (sources md)
     \<and> 1 < length (shape wav)
     \<and> (\<forall>mix kw. per_source md (apply_model (PModel md) mix kw))"
  then have r: "ready self" and m: "self ''_model'' = Some (PModel md)"
    and d: "distinct (sources md)" and sh: "1 < length (shape wav)"
    and ps: "\<And>mix kw. per_source md (apply_model (PModel md) mix kw)" by simp_all
  let ?g = "\<lambda>y. fadd (fmul y (tstd (mean0 wav))) (tmean (mean0 wav))"
  let ?w = "tmap (\<lambda>x. fdiv (fsub x (tmean (mean0 wav))) (tstd (mean0 wav))) wav"
  from separate_tensor_ready [OF r m sh] obtain kw where
    st: "separate_tensor apply_model self wav =
       bindE (index0 (tmap ?g (apply_model (PModel md) (unsqueeze0 ?w) kw))) (\<lambda>out0.
       bindE (unbind out0) (\<lambda>stems. Inr (?w, dict_of (zip (sources md) stems))))"
    by (auto simp: Let_def)
  from per_source_stems [OF ps, of ?g "unsqueeze0 ?w" kw] obtain out0 stems where
    o: "index0 (tmap ?g (apply_model (PModel md) (unsqueeze0 ?w) kw)) = Inr out0"
      "unbind out0 = Inr stems" "length stems = length (sources md)"
    by blast
  from st o have "separate_tensor apply_model self wav = Inr (?w, zip (sources md) stems)"
    by (simp add: bindE_def dict_of_zip [OF d o(3)])
  moreover from o(3) have "map fst (zip (sources md) stems) = sources md" by simp
  ultimately show "\<exists>w mix kw out0 stems.
      separate_tensor apply_model self wav = Inr (w, zip (sources md) stems)
      \<and> map fst (zip (sources md) stems) = sources md
      \<and> length stems = length (sources md)
      \<and> index0 (tmap ?g (apply_model (PModel md) mix kw)) = Inr out0
      \<and> unbind out0 = Inr stems"
    using o by blast
qed

lemma identity_per_source: "per_source md (identity_strategy (PModel md) mix kw)"
  by (simp add: per_source_def identity_strategy_def)

theorem source_mapping_order_witness:
  "\<exists>w mix kw out0 stems.
      separate_tensor identity_strategy demo_separator
        (Tensor [2, 3] [Fin 0, Fin 1, Fin 2, Fin 0, Fin 1, Fin 2])
          = Inr (w, zip [''drums'', ''bass'', ''other'', ''vocals''] stems)
      \<and> map fst (zip [''drums'', ''bass'', ''other'', ''vocals''] stems)
          = [''drums'', ''bass'', ''other'', ''vocals'']
      \<and> length stems = length [''drums'', ''bass'', ''other'', ''vocals'']
      \<and> index0 (tmap (\<lambda>y. fadd (fmul y
                 (tstd (mean0 (Tensor [2, 3] [Fin 0, Fin 1, Fin 2, Fin 0, Fin 1, Fin 2]))))
                 (tmean (mean0 (Tensor [2, 3] [Fin 0, Fin 1, Fin 2, Fin 0, Fin 1, Fin 2]))))
                     (identity_strategy (PModel demo_model) mix kw)) = Inr out0
      \<and> unbind out0 = Inr stems"
proof -
  have src: "sources demo_model = [''drums'', ''bass'', ''other'', ''vocals'']"
    by (simp add: demo_model_def)
  have h: "ready demo_separator \<and> demo_separator ''_model'' = Some (PModel demo_model)
     \<and> distinct (sources demo_model)
     \<and> 1 < length (shape (Tensor [2, 3] [Fin 0, Fin 1, Fin 2, Fin 0, Fin 1, Fin 2]))
     \<and> (\<forall>mix kw. per_source demo_model (identity_strategy (PModel demo_model) mix kw))"
    by (simp add: demo_ready demo_model_attr identity_per_source src)
  from source_mapping_order [of demo_separator demo_model
      "Tensor [2, 3] [Fin 0, Fin 1, Fin 2, Fin 0, Fin 1, Fin 2]" identity_strategy] h
  have "\<exists>w mix kw out0 stems.
      separate_tensor identity_strategy demo_separator
        (Tensor [2, 3] [Fin 0, Fin 1, Fin 2, Fin 0, Fin 1, Fin 2])
          = Inr (w, zip (sources demo_model) stems)
      \<and> map fst (zip (sources demo_model) stems) = sources demo_model
      \<and> length stems = length (sources demo_model)
      \<and> index0 (tmap (\<lambda>y. fadd (fmul y
                 (tstd (mean0 (Tensor [2, 3] [Fin 0, Fin 1, Fin 2, Fin 0, Fin 1, Fin 2]))))
                 (tmean (mean0 (Tensor [2, 3] [Fin 0, Fin 1, Fin 2, Fin 0, Fin 1, Fin 2]))))
                     (identity_strategy (PModel demo_model) mix kw)) = Inr out0
      \<and> unbind out0 = Inr stems"
    by (rule mp)
  then show ?thesis unfolding src .
qed

text \<open>
  Claim C9. The callback context that \<^verbatim>\<open>separate_tensor\<close> passes to the strategy
  is the context of the separator with the key \<^verbatim>\<open>audio_length\<close> set to the size of
  the second dimension of the waveform: that key has this value whether the context had the key
  or not, and every other key has the value it had.
\<close>

theorem callback_context_audio_length:
  "ready self \<and> 1 < length (shape wav) \<longrightarrow>
   (\<exists>md mix kw d.
      apply_arguments self (tmap (\<lambda>x. fdiv (fsub x (tmean (mean0 wav))) (tstd (mean0 wav))) wav)
        = Inr (PModel md, mix, kw)
      \<and> callback_arg kw = PDict d
      \<and> d = AList.update ''audio_length'' (PInt (int (shape wav ! 1))) (context_of self)
      \<and> map_of d ''audio_length'' = Some (PInt (int (shape wav ! 1)))
      \<and> (\<forall>k. k \<noteq> ''audio_length'' \<longrightarrow> map_of d k = map_of (context_of self) k)
      \<and> (\<forall>apply_model. separate_tensor apply_model self wav =
           (let M = tmean (mean0 wav); S = tstd (mean0 wav);
                w = tmap (\<lambda>x. fdiv (fsub x M) S) wav;
                out = tmap (\<lambda>y. fadd (fmul y S) M) (apply_model (PModel md) mix kw)
            in bindE (index0 out) (\<lambda>out0.
               bindE (unbind out0) (\<lambda>stems.
                 Inr (w, dict_of (zip (sources md) stems)))))))"
proof
  assume h: "ready self \<and> 1 < length (shape wav)"
  then have r: "ready self" and sh: "1 < length (shape wav)" by simp_all
  let ?w = "tmap (\<lambda>x. fdiv (fsub x (tmean (mean0 wav))) (tstd (mean0 wav))) wav"
  let ?d = "AList.update ''audio_length'' (PInt (int (shape wav ! 1))) (context_of self)"
  from r obtain md where m: "self ''_model'' = Some (PModel md)" by (rule ready_attrs)
  from sh have sh': "1 < length (shape ?w)" by (simp add: shape_tmap)
  from apply_arguments_ready [OF r sh'] m obtain kw where
    kw: "apply_arguments self ?w = Inr (PModel md, unsqueeze0 ?w, kw)"
      "callback_arg kw = PDict ?d"
    by (auto simp: shape_tmap)
  have st: "\<forall>am. separate_tensor am self wav =
         (let M = tmean (mean0 wav); S = tstd (mean0 wav);
              w = tmap (\<lambda>x. fdiv (fsub x M) S) wav;
              out = tmap (\<lambda>y. fadd (fmul y S) M) (am (PModel md) (unsqueeze0 ?w) kw)
          in bindE (index0 out) (\<lambda>out0.
             bindE (unbind out0) (\<lambda>stems.
               Inr (w, dict_of (zip (sources md) stems)))))"
    using m kw(1)
    by (simp add: separate_tensor_def Let_def bindE_def getattr_def model_sources_def)
  have 1: "map_of ?d ''audio_length'' = Some (PInt (int (shape wav ! 1)))"
    by (simp add: update_conv')
  have 2: "\<forall>k. k \<noteq> ''audio_length'' \<longrightarrow> map_of ?d k = map_of (context_of self) k"
    by (simp add: update_conv')
  from kw st 1 2 show "\<exists>md mix kw d.
      apply_arguments self ?w = Inr (PModel md, mix, kw)
      \<and> callback_arg kw = PDict d
      \<and> d = ?d
      \<and> map_of d ''audio_length'' = Some (PInt (int (shape wav ! 1)))
      \<and> (\<forall>k. k \<noteq> ''audio_length'' \<longrightarrow> map_of d k = map_of (context_of self) k)
      \<and> (\<forall>apply_model. separate_tensor apply_model self wav =
           (let M = tmean (mean0 wav); S = tstd (mean0 wav);
                w = tmap (\<lambda>x. fdiv (fsub x M) S) wav;
                out = tmap (\<lambda>y. fadd (fmul y S) M) (apply_model (PModel md) mix kw)
            in bindE (index0 out) (\<lambda>out0.
               bindE (unbind out0) (\<lambda>stems.
                 Inr (w, dict_of (zip (sources md) stems))))))"
    by blast
qed

lemma demo_context:
  "context_of (update_parameter demo_separator
       (no_params\<lparr>callback_arg := PDict [(''audio_length'', PInt 7), (''track'', PStr ''a'')]\<rparr>))
     = [(''audio_length'', PInt 7), (''track'', PStr ''a'')]"
proof -
  have "offered (no_params\<lparr>callback_arg := PDict [(''audio_length'', PInt 7), (''track'', PStr ''a'')]\<rparr>)
      ''_callback_arg'' = Some (PDict [(''audio_length'', PInt 7), (''track'', PStr ''a'')])"
    by (simp add: offered_def assignments_def)
  then show ?thesis by (simp add: context_of_def update_parameter_apply)
qed


theorem callback_context_audio_length_witness:
  "\<exists>md mix kw d.
      apply_arguments
        (update_parameter demo_separator
           (no_params\<lparr>callback_arg := PDict [(''audio_length'', PInt 7), (''track'', PStr ''a'')]\<rparr>))
        (tmap (\<lambda>x. fdiv (fsub x (tmean (mean0 (Tensor [2, 3] [Fin 0, Fin 1, Fin 2, Fin 0, Fin 1, Fin 2]))))
                       (tstd (mean0 (Tensor [2, 3] [Fin 0, Fin 1, Fin 2, Fin 0, Fin 1, Fin 2]))))
           (Tensor [2, 3] [Fin 0, Fin 1, Fin 2, Fin 0, Fin 1, Fin 2]))
        = Inr (PModel md, mix, kw)
      \<and> callback_arg kw = PDict d
      \<and> d = [(''audio_length'', PInt 3), (''track'', PStr ''a'')]"
proof -
  let ?S = "update_parameter demo_separator
           (no_params\<lparr>callback_arg := PDict [(''audio_length'', PInt 7), (''track'', PStr ''a'')]\<rparr>)"
  let ?W = "Tensor [2, 3] [Fin 0, Fin 1, Fin 2, Fin 0, Fin 1, Fin 2]"
  have r: "ready ?S" by (rule update_parameter_ready [OF demo_ready]) simp
  have sh: "1 < length (shape ?W)" by simp
  from r sh have h: "ready ?S \<and> 1 < length (shape ?W)" by (rule conjI)
  have u: "AList.update ''audio_length'' (PInt (int (shape ?W ! 1))) (context_of ?S)
      = [(''audio_length'', PInt 3), (''track'', PStr ''a'')]"
    unfolding demo_context by simp
  from callback_context_audio_length [of ?S ?W] h
  have "\<exists>md mix kw d.
      apply_arguments ?S (tmap (\<lambda>x. fdiv (fsub x (tmean (mean0 ?W))) (tstd (mean0 ?W))) ?W)
        = Inr (PModel md, mix, kw)
      \<and> callback_arg kw = PDict d
      \<and> d = AList.update ''audio_length'' (PInt (int (shape ?W ! 1))) (context_of ?S)
      \<and> map_of d ''audio_length'' = Some (PInt (int (shape ?W ! 1)))
      \<and> (\<forall>k. k \<noteq> ''audio_length'' \<longrightarrow> map_of d k = map_of (context_of ?S) k)
      \<and> (\<forall>apply_model. separate_tensor apply_model ?S ?W =
           (let M = tmean (mean0 ?W); S = tstd (mean0 ?W);
                w = tmap (\<lambda>x. fdiv (fsub x M) S) ?W;
                out = tmap (\<lambda>y. fadd (fmul y S) M) (apply_model (PModel md) mix kw)
            in bindE (index0 out) (\<lambda>out0.
               bindE (unbind out0) (\<lambda>stems.
                 Inr (w, dict_of (zip (sources md) stems))))))"
    by (rule mp)
  then obtain md mix kw d where
    "apply_arguments ?S (tmap (\<lambda>x. fdiv (fsub x (tmean (mean0 ?W))) (tstd (mean0 ?W))) ?W)
        = Inr (PModel md, mix, kw)"
    "callback_arg kw = PDict d"
    "d = AList.update ''audio_length'' (PInt (int (shape ?W ! 1))) (context_of ?S)"
    by (elim exE conjE) (rule that)
  then show ?thesis unfolding u by (intro exI conjI)
qed

end
